theory Spec2Isabelle
  imports Complex_Main
begin

section \<open>Orientation integration of gyroflow (gyro\_integrator.py)\<close>

text \<open>
  The module integrates gyroscope samples into quaternion orientations. numpy's float64
  values are idealised as real numbers here: rounding, infinities and nan are not
  represented. Every statement below is a statement about that idealisation.
\<close>

subsection \<open>Values, errors and the array store\<close>

text \<open>A row of an N x 4 array (a sample [t, x, y, z] or a quaternion [w, x, y, z]) and a
  row of an N x 3 array (an angular velocity [x, y, z]).\<close>

type_synonym vec4 = "real \<times> real \<times> real \<times> real"

type_synonym vec3 = "real \<times> real \<times> real"

text \<open>The Python exceptions the modelled code can raise.\<close>

datatype error = IndexError | KeyError | TypeError | AttributeError | UFuncTypeError

text \<open>
  numpy arrays are objects with identity: two names can denote the same array, and a write
  through one is seen through the other. The store keeps the arrays by address, one
  address space per shape; an address is an index into the list, and a new array is
  appended.
\<close>

record heap =
  vecs :: "real list list"
  mats3 :: "vec3 list list"
  mats4 :: "vec4 list list"

definition alloc_vec :: "real list \<Rightarrow> heap \<Rightarrow> nat \<times> heap" where
  "alloc_vec a h = (length (vecs h), h\<lparr>vecs := vecs h @ [a]\<rparr>)"

definition alloc_mat3 :: "vec3 list \<Rightarrow> heap \<Rightarrow> nat \<times> heap" where
  "alloc_mat3 a h = (length (mats3 h), h\<lparr>mats3 := mats3 h @ [a]\<rparr>)"

definition alloc_mat4 :: "vec4 list \<Rightarrow> heap \<Rightarrow> nat \<times> heap" where
  "alloc_mat4 a h = (length (mats4 h), h\<lparr>mats4 := mats4 h @ [a]\<rparr>)"

text \<open>A caller's in-place write into an array it holds a reference to.\<close>

definition write_vec :: "nat \<Rightarrow> real list \<Rightarrow> heap \<Rightarrow> heap" where
  "write_vec r a h = h\<lparr>vecs := (vecs h)[r := a]\<rparr>"

definition write_mat4 :: "nat \<Rightarrow> vec4 list \<Rightarrow> heap \<Rightarrow> heap" where
  "write_mat4 r a h = h\<lparr>mats4 := (mats4 h)[r := a]\<rparr>"

definition write_mat3 :: "nat \<Rightarrow> vec3 list \<Rightarrow> heap \<Rightarrow> heap" where
  "write_mat3 r a h = h\<lparr>mats3 := (mats3 h)[r := a]\<rparr>"

subsection \<open>The quaternion module and the smoothing algorithms\<close>

text \<open>
  The module \<open>quaternion\<close> (imported as \<open>quat\<close>) is not part of the file; the functions of
  it that the integrator calls are parameters of the model.
\<close>

record qlib =
  quaternion :: "real \<Rightarrow> real \<Rightarrow> real \<Rightarrow> real \<Rightarrow> vec4"
  vector :: "real \<Rightarrow> real \<Rightarrow> real \<Rightarrow> vec3"
  normalize_q :: "vec4 \<Rightarrow> vec4"
  quaternion_multiply :: "vec4 \<Rightarrow> vec4 \<Rightarrow> vec4"
  slerp :: "vec4 \<Rightarrow> vec4 \<Rightarrow> real list \<Rightarrow> vec4 list"
  rot_between :: "vec4 \<Rightarrow> vec4 \<Rightarrow> vec4"

text \<open>
  Modelled from the spec: the quaternion primitives (construction, Hamilton product,
  normalisation) that the spec lists as an external library, with a quaternion written
  (w, x, y, z). Normalisation divides by the Euclidean norm; for the zero quaternion
  numpy yields nan components, which the real-valued model does not represent, so
  \<open>spec_normalize\<close> is only meaningful on non-zero arguments. \<open>slerp\<close> and
  \<open>rot_between\<close> are never evaluated by the statements below and are left
  uninterpreted in \<open>spec_quat\<close>.
\<close>

definition spec_quaternion :: "real \<Rightarrow> real \<Rightarrow> real \<Rightarrow> real \<Rightarrow> vec4" where
  "spec_quaternion w x y z = (w, x, y, z)"

definition spec_vector :: "real \<Rightarrow> real \<Rightarrow> real \<Rightarrow> vec3" where
  "spec_vector x y z = (x, y, z)"

definition spec_normalize :: "vec4 \<Rightarrow> vec4" where
  "spec_normalize q =
     (case q of (w, x, y, z) \<Rightarrow>
        (let n = sqrt (w * w + x * x + y * y + z * z)
         in (w / n, x / n, y / n, z / n)))"

definition spec_multiply :: "vec4 \<Rightarrow> vec4 \<Rightarrow> vec4" where
  "spec_multiply p q =
     (case p of (w1, x1, y1, z1) \<Rightarrow> case q of (w0, x0, y0, z0) \<Rightarrow>
        (w1 * w0 - x1 * x0 - y1 * y0 - z1 * z0,
         w1 * x0 + x1 * w0 + y1 * z0 - z1 * y0,
         w1 * y0 - x1 * z0 + y1 * w0 + z1 * x0,
         w1 * z0 + x1 * y0 - y1 * x0 + z1 * w0))"

definition spec_quat :: "(vec4 \<Rightarrow> vec4 \<Rightarrow> real list \<Rightarrow> vec4 list) \<Rightarrow> (vec4 \<Rightarrow> vec4 \<Rightarrow> vec4) \<Rightarrow> qlib" where
  "spec_quat sl rb =
     \<lparr>quaternion = spec_quaternion, vector = spec_vector, normalize_q = spec_normalize,
      quaternion_multiply = spec_multiply, slerp = sl, rot_between = rb\<rparr>"

text \<open>
  The module \<open>smoothing_algos\<close> is not part of the file either. A smoothing algorithm is
  an object with a flag and two methods; each method may raise, may allocate arrays, and
  returns a pair of a 1-D array of times and an N x 4 array (either may be None).
\<close>

record smoothing =
  bypass_external_processing :: bool
  get_smooth_orientations ::
    "nat option \<Rightarrow> nat option \<Rightarrow> heap \<Rightarrow> (error + nat option \<times> nat option) \<times> heap"
  algo_get_stabilize_transform ::
    "nat \<Rightarrow> heap \<Rightarrow> (error + nat option \<times> nat option) \<times> heap"

subsection \<open>GyroIntegrator: the instance and its constructor\<close>

text \<open>
  The attributes of an instance. \<open>data\<close> is the address of the instance's N x 4 array;
  \<open>orientation_list\<close> and \<open>time_list\<close> are None or the address of an array.
  \<open>gyro_sample_rate\<close> is None where the float division is by zero (inf or nan in numpy).
\<close>

record gyro_integrator =
  data :: nat
  num_data_points :: nat
  gyro_sample_rate :: "real option"
  orientation :: vec4
  orientation_list :: "nat option"
  time_list :: "nat option"
  imuRefX :: vec3
  imuRefY :: vec3
  already_integrated :: bool
  smoothing_algo :: "smoothing option"

text \<open>\<open>self.data[:-1,0] > self.data[1:,0]\<close>: entry k compares sample k with sample k+1.\<close>

definition time_order_check :: "vec4 list \<Rightarrow> bool list" where
  "time_order_check d = map2 (\<lambda>a b. fst a > fst b) (butlast d) (tl d)"

text \<open>\<open>np.any\<close> of a boolean array, and \<open>np.argmax\<close> of one: the first index that holds
  True (0 when none does).\<close>

definition np_any :: "bool list \<Rightarrow> bool" where
  "np_any bs = list_ex id bs"

definition np_argmax :: "bool list \<Rightarrow> nat" where
  "np_argmax bs = (if np_any bs then length (takeWhile Not bs) else 0)"

text \<open>Lines 27 to 30: the check for out-of-order timestamps and the truncation.\<close>

definition truncate_bad :: "vec4 list \<Rightarrow> vec4 list" where
  "truncate_bad d =
     (let c = time_order_check d
      in if np_any c then take (np_argmax c + 1) d else d)"

text \<open>Lines 33 to 38: the three in-place column operations.\<close>

definition scale_data :: "real \<Rightarrow> real \<Rightarrow> vec4 list \<Rightarrow> vec4 list" where
  "scale_data time_scaling gyro_scaling d =
     (let d1 = map (\<lambda>(t, x, y, z). (t * time_scaling, x, y, z)) d;
          d2 = map (\<lambda>(t, x, y, z). (t, x * gyro_scaling, y * gyro_scaling, z * gyro_scaling)) d1
      in map (\<lambda>(t, x, y, z). (t, x, y * (- 1), z)) d2)"

text \<open>Lines 41 and 42: \<open>self.data[0,0]\<close> raises IndexError on an array without rows.\<close>

definition zero_out :: "bool \<Rightarrow> vec4 list \<Rightarrow> error + vec4 list" where
  "zero_out zero_out_time d =
     (if zero_out_time then
        (case d of [] \<Rightarrow> Inl IndexError
         | r # _ \<Rightarrow> Inr (map (\<lambda>(t, x, y, z). (t - fst r, x, y, z)) d))
      else Inr d)"

text \<open>Line 46: \<open>self.data[-1,0]\<close> raises IndexError on an array without rows.\<close>

definition sample_rate :: "vec4 list \<Rightarrow> error + real option" where
  "sample_rate d =
     (if d = [] then Inl IndexError
      else let span = fst (last d) - fst (hd d)
           in Inr (if span = 0 then None else Some (real (length d) / span)))"

definition default_orientation :: vec4 where
  "default_orientation = (1, 1 / 10000, 1 / 10000, 1 / 10000)"

text \<open>
  \<open>GyroIntegrator.__init__\<close>. \<open>input_data\<close> is the content of the caller's array, of which
  the constructor takes a copy; \<open>acc_data\<close> is not used by the code. The instance's array
  is private until the constructor returns, so it is computed first and stored once.
\<close>

definition GyroIntegrator ::
  "qlib \<Rightarrow> vec4 list \<Rightarrow> real \<Rightarrow> real \<Rightarrow> bool \<Rightarrow> vec4 option \<Rightarrow> heap
     \<Rightarrow> (error + gyro_integrator) \<times> heap" where
  "GyroIntegrator L input_data time_scaling gyro_scaling zero_out_time initial_orientation h =
     (let d = scale_data time_scaling gyro_scaling (truncate_bad input_data)
      in case zero_out zero_out_time d of
           Inl e \<Rightarrow> (Inl e, h)
         | Inr d' \<Rightarrow>
             (case sample_rate d' of
                Inl e \<Rightarrow> (Inl e, h)
              | Inr rate \<Rightarrow>
                  (let (r, h') = alloc_mat4 d' h
                   in (Inr \<lparr>data = r,
                             num_data_points = length d',
                             gyro_sample_rate = rate,
                             orientation = (case initial_orientation of
                                              Some q \<Rightarrow> q
                                            | None \<Rightarrow> default_orientation),
                             orientation_list = None,
                             time_list = None,
                             imuRefX = vector L 1 0 0,
                             imuRefY = vector L 0 0 1,
                             already_integrated = False,
                             smoothing_algo = None\<rparr>, h'))))"

text \<open>The timestamps an instance stores: column 0 of its array.\<close>

definition stored_times :: "gyro_integrator \<Rightarrow> heap \<Rightarrow> real list" where
  "stored_times self h = map fst (mats4 h ! data self)"

subsection \<open>GyroIntegrator: incremental rotation and integration\<close>

definition dot3 :: "vec3 \<Rightarrow> vec3 \<Rightarrow> real" where
  "dot3 a b = (case a of (a0, a1, a2) \<Rightarrow> case b of (b0, b1, b2) \<Rightarrow> a0 * b0 + a1 * b1 + a2 * b2)"

definition scale3 :: "vec3 \<Rightarrow> real \<Rightarrow> vec3" where
  "scale3 a c = (case a of (a0, a1, a2) \<Rightarrow> (a0 * c, a1 * c, a2 * c))"

text \<open>
  \<open>rate_to_quat\<close> (lines 263 to 291). \<open>ha\<close> is a new array, so the in-place
  \<open>ha *= np.sin(l) / l\<close> changes no sample.
\<close>

definition rate_to_quat :: "qlib \<Rightarrow> vec3 \<Rightarrow> real \<Rightarrow> vec4" where
  "rate_to_quat L omega dt =
     (let ha = scale3 (scale3 omega dt) (1 / 2);
          l = sqrt (dot3 ha ha)
      in if l > 1 / 10 ^ 12 then
           (case scale3 ha (sin l / l) of
              (q1, q2, q3) \<Rightarrow> normalize_q L (quaternion L (cos l) q1 q2 q3))
         else quaternion L 1 0 0 0)"

text \<open>\<open>self.data[i][1:]\<close> and \<open>np.any(omega)\<close>.\<close>

definition omega_of :: "vec4 \<Rightarrow> vec3" where
  "omega_of r = (case r of (t, x, y, z) \<Rightarrow> (x, y, z))"

definition any3 :: "vec3 \<Rightarrow> bool" where
  "any3 v = (case v of (x, y, z) \<Rightarrow> x \<noteq> 0 \<or> y \<noteq> 0 \<or> z \<noteq> 0)"

text \<open>
  A \<open>for\<close> loop over a list of indices whose body may raise: the result is the error, if
  any, and the loop's variables as they were when the loop ended.
\<close>

fun for_each :: "(nat \<Rightarrow> 's \<Rightarrow> error + 's) \<Rightarrow> nat list \<Rightarrow> 's \<Rightarrow> error option \<times> 's" where
  "for_each body [] s = (None, s)"
| "for_each body (i # is) s =
     (case body i s of Inl e \<Rightarrow> (Some e, s) | Inr s' \<Rightarrow> for_each body is s')"

text \<open>Reading row i of an array: IndexError beyond its rows.\<close>

definition row :: "'a list \<Rightarrow> nat \<Rightarrow> error + 'a" where
  "row d i = (if i < length d then Inr (d ! i) else Inl IndexError)"

text \<open>
  The three timestamps an iteration reads (lines 89 to 91): the neighbours' times, with
  the sample's own time in place of a neighbour that does not exist.
\<close>

definition adjacent_times :: "vec4 list \<Rightarrow> nat \<Rightarrow> nat \<Rightarrow> error + real \<times> real \<times> real" where
  "adjacent_times d n i =
     (case (if i > 0 then row d (i - 1) else row d i) of
        Inl e \<Rightarrow> Inl e
      | Inr l \<Rightarrow>
          (case row d i of
             Inl e \<Rightarrow> Inl e
           | Inr t \<Rightarrow>
               (case (if int i < int n - 1 then row d (i + 1) else row d i) of
                  Inl e \<Rightarrow> Inl e
                | Inr x \<Rightarrow> Inr (fst l, fst t, fst x))))"

text \<open>
  The body of the loop of \<open>integrate_all\<close> (lines 84 to 107). The loop's variables are
  \<open>self.orientation\<close> (here \<open>cur\<close>), \<open>temp_orientation_list\<close> and \<open>temp_time_list\<close>.
\<close>

definition integrate_step ::
  "qlib \<Rightarrow> vec4 list \<Rightarrow> nat \<Rightarrow> nat \<Rightarrow> vec4 \<times> vec4 list \<times> real list
     \<Rightarrow> error + vec4 \<times> vec4 list \<times> real list" where
  "integrate_step L d n i s =
     (case s of (cur, temp_orientation_list, temp_time_list) \<Rightarrow>
        (case row d i of
           Inl e \<Rightarrow> Inl e
         | Inr r \<Rightarrow>
             (case adjacent_times d n i of
                Inl e \<Rightarrow> Inl e
              | Inr (last_time, this_time, next_time) \<Rightarrow>
                  (let omega = omega_of r;
                       delta_time = (next_time - last_time) / 2;
                       cur' =
                         (if any3 omega then
                            (let delta_q = rate_to_quat L omega delta_time
                             in normalize_q L (quaternion_multiply L cur delta_q))
                          else cur)
                   in Inr (cur',
                           temp_orientation_list @ [cur'],
                           temp_time_list @ [this_time])))))"

text \<open>
  \<open>GyroIntegrator.integrate_all\<close> (lines 68 to 114). The result is the pair of
  references \<open>(self.time_list, self.orientation_list)\<close>, with the instance and the store
  as the call leaves them. An exception leaves \<open>self.orientation\<close> as the loop had it.
\<close>

definition integrate_all ::
  "qlib \<Rightarrow> gyro_integrator \<Rightarrow> heap
     \<Rightarrow> (error + nat option \<times> nat option) \<times> gyro_integrator \<times> heap" where
  "integrate_all L self h =
     (if already_integrated self then (Inr (time_list self, orientation_list self), self, h)
      else
        (case for_each (integrate_step L (mats4 h ! data self) (num_data_points self))
                [0..<num_data_points self] (orientation self, [], []) of
           (Some e, (q, qs, ts)) \<Rightarrow> (Inl e, self\<lparr>orientation := q\<rparr>, h)
         | (None, (q, qs, ts)) \<Rightarrow>
             (let (ro, h1) = alloc_mat4 qs h;
                  (rt, h2) = alloc_vec ts h1;
                  self' = self\<lparr>orientation := q,
                               orientation_list := Some ro,
                               time_list := Some rt,
                               already_integrated := True\<rparr>
              in (Inr (time_list self', orientation_list self'), self', h2))))"

text \<open>\<open>get_orientations\<close> (lines 117 to 127): the same pair of references, or None.\<close>

definition get_orientations :: "gyro_integrator \<Rightarrow> (nat option \<times> nat option) option" where
  "get_orientations self =
     (if already_integrated self then Some (time_list self, orientation_list self) else None)"

text \<open>What a caller reads through a pair of references it was given.\<close>

definition read_track :: "heap \<Rightarrow> nat option \<times> nat option \<Rightarrow> real list option \<times> vec4 list option" where
  "read_track h p = (map_option (\<lambda>r. vecs h ! r) (fst p), map_option (\<lambda>r. mats4 h ! r) (snd p))"

subsection \<open>GyroIntegrator: smoothing and the stabilizing rotations\<close>

text \<open>
  \<open>set_smoothing_algo\<close> (lines 129 to 133): an algorithm object is taken to be truthy, so
  only None takes the first branch, which binds a local name and stores nothing.
\<close>

definition set_smoothing_algo :: "smoothing option \<Rightarrow> gyro_integrator \<Rightarrow> gyro_integrator" where
  "set_smoothing_algo algo self =
     (case algo of None \<Rightarrow> self | Some a \<Rightarrow> self\<lparr>smoothing_algo := Some a\<rparr>)"

text \<open>
  \<open>get_smoothed_orientation\<close> (lines 135 to 142; the lines after the \<open>return\<close> are never
  run). \<open>PlainSlerp\<close> stands for the object \<open>smoothing_algos.PlainSlerp()\<close> builds.
\<close>

definition get_smoothed_orientation ::
  "smoothing \<Rightarrow> gyro_integrator \<Rightarrow> heap
     \<Rightarrow> (error + nat option \<times> nat option) \<times> gyro_integrator \<times> heap" where
  "get_smoothed_orientation PlainSlerp self h =
     (let a = (case smoothing_algo self of None \<Rightarrow> PlainSlerp | Some a \<Rightarrow> a);
          self' = self\<lparr>smoothing_algo := Some a\<rparr>
      in case get_smooth_orientations a (time_list self') (orientation_list self') h of
           (res, h') \<Rightarrow> (res, self', h'))"

text \<open>Subscripting a name that holds None or an array: \<open>x[i]\<close>.\<close>

definition getitem :: "'a list option \<Rightarrow> nat \<Rightarrow> error + 'a" where
  "getitem x i = (case x of None \<Rightarrow> Inl TypeError | Some xs \<Rightarrow> row xs i)"

text \<open>The body of the loop of \<open>get_stabilize_transform\<close> (line 189).\<close>

definition stab_step ::
  "qlib \<Rightarrow> vec4 list option \<Rightarrow> vec4 list \<Rightarrow> nat \<Rightarrow> vec4 list \<Rightarrow> error + vec4 list" where
  "stab_step L smoothed raw i stab =
     (case getitem smoothed i of
        Inl e \<Rightarrow> Inl e
      | Inr s \<Rightarrow>
          (case row raw i of
             Inl e \<Rightarrow> Inl e
           | Inr r \<Rightarrow>
               (if i < length stab then Inr (stab[i := rot_between L s r])
                else Inl IndexError)))"

text \<open>
  \<open>get_stabilize_transform\<close> (lines 180 to 191). \<open>self.orientation_list.shape\<close> raises
  AttributeError when \<open>self.orientation_list\<close> is None.
\<close>

definition get_stabilize_transform ::
  "qlib \<Rightarrow> smoothing \<Rightarrow> gyro_integrator \<Rightarrow> heap
     \<Rightarrow> (error + nat option \<times> nat option) \<times> gyro_integrator \<times> heap" where
  "get_stabilize_transform L PlainSlerp self h =
     (case get_smoothed_orientation PlainSlerp self h of
        (Inl e, self1, h1) \<Rightarrow> (Inl e, self1, h1)
      | (Inr (tlist, smoothed), self1, h1) \<Rightarrow>
          (case orientation_list self1 of
             None \<Rightarrow> (Inl AttributeError, self1, h1)
           | Some ro \<Rightarrow>
               (let raw = mats4 h1 ! ro;
                    zeros = replicate (length raw) (0, 0, 0, 0)
                in case for_each (stab_step L (map_option (\<lambda>r. mats4 h1 ! r) smoothed) raw)
                          [0..<num_data_points self1] zeros of
                     (Some e, stab) \<Rightarrow> (Inl e, self1, h1)
                   | (None, stab) \<Rightarrow>
                       (let (rs, h2) = alloc_mat4 stab h1
                        in (Inr (time_list self1, Some rs), self1, h2)))))"

subsection \<open>GyroIntegrator: resampling onto a fixed-interval grid\<close>

text \<open>
  An entry of \<open>slerped_rotations\<close>: a row of the stabilizing rotations, or what
  \<open>quat.slerp\<close> returned for a list of one weight.
\<close>

datatype out_rot = Row vec4 | Interp "vec4 list"

text \<open>
  The \<open>while\<close> loops of \<open>get_interpolated_stab_transform\<close> need not end (an interval
  that is not positive): a loop that does not end has the value None. Their variables are
  \<open>time\<close>, \<open>out_times\<close> and \<open>slerped_rotations\<close>.
\<close>

partial_function (option) while_negative ::
  "vec4 list option \<Rightarrow> real \<Rightarrow> real \<Rightarrow> real list \<Rightarrow> out_rot list
     \<Rightarrow> (error + real \<times> real list \<times> out_rot list) option" where
  "while_negative smoothed interval time out_times rots =
     (if time < 0 then
        (case getitem smoothed 0 of
           Inl e \<Rightarrow> Some (Inl e)
         | Inr q \<Rightarrow>
             while_negative smoothed interval (time + interval) (out_times @ [time]) (rots @ [Row q]))
      else Some (Inr (time, out_times, rots)))"

partial_function (option) while_first ::
  "real list option \<Rightarrow> vec4 list option \<Rightarrow> real \<Rightarrow> real \<Rightarrow> real list \<Rightarrow> out_rot list
     \<Rightarrow> (error + real \<times> real list \<times> out_rot list) option" where
  "while_first tlist smoothed interval time out_times rots =
     (case getitem tlist 0 of
        Inl e \<Rightarrow> Some (Inl e)
      | Inr t0 \<Rightarrow>
          (if t0 \<ge> time then
             (case getitem smoothed 0 of
                Inl e \<Rightarrow> Some (Inl e)
              | Inr q \<Rightarrow>
                  while_first tlist smoothed interval (time + interval) (out_times @ [time])
                    (rots @ [Row q]))
           else Some (Inr (time, out_times, rots))))"

partial_function (option) while_between ::
  "qlib \<Rightarrow> real list \<Rightarrow> vec4 list option \<Rightarrow> real \<Rightarrow> nat \<Rightarrow> real \<Rightarrow> real list \<Rightarrow> out_rot list
     \<Rightarrow> (error + real \<times> real list \<times> out_rot list) option" where
  "while_between L tlist smoothed interval i time out_times rots =
     (case row tlist i of
        Inl e \<Rightarrow> Some (Inl e)
      | Inr ti \<Rightarrow>
          (if ti \<le> time then
             (case row tlist (i + 1) of
                Inl e \<Rightarrow> Some (Inl e)
              | Inr tn \<Rightarrow>
                  (if time < tn then
                     (let weight = (time - ti) / (tn - ti)
                      in case getitem smoothed i of
                           Inl e \<Rightarrow> Some (Inl e)
                         | Inr a \<Rightarrow>
                             (case getitem smoothed (i + 1) of
                                Inl e \<Rightarrow> Some (Inl e)
                              | Inr b \<Rightarrow>
                                  while_between L tlist smoothed interval i (time + interval)
                                    (out_times @ [time]) (rots @ [Interp (slerp L a b [weight])])))
                   else Some (Inr (time, out_times, rots))))
           else Some (Inr (time, out_times, rots))))"

text \<open>The body of the \<open>for\<close> loop (lines 222 to 235): the inner loop, then the \<open>if\<close>.\<close>

definition between_step ::
  "qlib \<Rightarrow> real list \<Rightarrow> vec4 list option \<Rightarrow> real \<Rightarrow> nat \<Rightarrow> real \<times> real list \<times> out_rot list
     \<Rightarrow> (error + real \<times> real list \<times> out_rot list) option" where
  "between_step L tlist smoothed interval i s =
     (case s of (time, out_times, rots) \<Rightarrow>
        (case while_between L tlist smoothed interval i time out_times rots of
           None \<Rightarrow> None
         | Some (Inl e) \<Rightarrow> Some (Inl e)
         | Some (Inr (time', out_times', rots')) \<Rightarrow>
             (case row tlist i of
                Inl e \<Rightarrow> Some (Inl e)
              | Inr ti \<Rightarrow>
                  (if time' < ti then
                     (case getitem smoothed i of
                        Inl e \<Rightarrow> Some (Inl e)
                      | Inr q \<Rightarrow> Some (Inr (time' + interval, out_times' @ [time'], rots' @ [Row q])))
                   else Some (Inr (time', out_times', rots'))))))"

fun for_each_opt ::
  "(nat \<Rightarrow> 's \<Rightarrow> (error + 's) option) \<Rightarrow> nat list \<Rightarrow> 's \<Rightarrow> (error + 's) option" where
  "for_each_opt body [] s = Some (Inr s)"
| "for_each_opt body (i # is) s =
     (case body i s of
        None \<Rightarrow> None
      | Some (Inl e) \<Rightarrow> Some (Inl e)
      | Some (Inr s') \<Rightarrow> for_each_opt body is s')"

text \<open>
  Lines 205 to 237 of \<open>get_interpolated_stab_transform\<close>: the resampling of the track
  \<open>(time_list, smoothed_orientation)\<close> the first lines obtained. \<open>len(time_list)\<close> raises
  TypeError on None.
\<close>

definition resample ::
  "qlib \<Rightarrow> real list option \<Rightarrow> vec4 list option \<Rightarrow> real \<Rightarrow> real
     \<Rightarrow> (error + real list \<times> out_rot list) option" where
  "resample L tlist smoothed start interval =
     (case while_negative smoothed interval start [] [] of
        None \<Rightarrow> None
      | Some (Inl e) \<Rightarrow> Some (Inl e)
      | Some (Inr (t1, o1, r1)) \<Rightarrow>
          (case while_first tlist smoothed interval t1 o1 r1 of
             None \<Rightarrow> None
           | Some (Inl e) \<Rightarrow> Some (Inl e)
           | Some (Inr s2) \<Rightarrow>
               (case tlist of
                  None \<Rightarrow> Some (Inl TypeError)
                | Some ts \<Rightarrow>
                    (case for_each_opt (between_step L ts smoothed interval)
                            [0..<length ts - 1] s2 of
                       None \<Rightarrow> None
                     | Some (Inl e) \<Rightarrow> Some (Inl e)
                     | Some (Inr (t3, o3, r3)) \<Rightarrow> Some (Inr (o3, r3))))))"

text \<open>
  \<open>get_interpolated_stab_transform\<close> (lines 194 to 237): the track comes from the
  smoothing algorithm itself when it bypasses the integration, and from
  \<open>get_stabilize_transform\<close> otherwise. A call that does not return has the value None.
\<close>

definition get_interpolated_stab_transform ::
  "qlib \<Rightarrow> smoothing \<Rightarrow> gyro_integrator \<Rightarrow> heap \<Rightarrow> real \<Rightarrow> real
     \<Rightarrow> ((error + real list \<times> out_rot list) \<times> gyro_integrator \<times> heap) option" where
  "get_interpolated_stab_transform L PlainSlerp self h start interval =
     (case (case smoothing_algo self of
              Some a \<Rightarrow>
                (if bypass_external_processing a then
                   (case algo_get_stabilize_transform a (data self) h of
                      (res, h') \<Rightarrow> (res, self, h'))
                 else get_stabilize_transform L PlainSlerp self h)
            | None \<Rightarrow> get_stabilize_transform L PlainSlerp self h) of
        (Inl e, self1, h1) \<Rightarrow> Some (Inl e, self1, h1)
      | (Inr (tlist, smoothed), self1, h1) \<Rightarrow>
          (case resample L (map_option (\<lambda>r. vecs h1 ! r) tlist)
                  (map_option (\<lambda>r. mats4 h1 ! r) smoothed) start interval of
             None \<Rightarrow> None
           | Some res \<Rightarrow> Some (res, self1, h1)))"

subsection \<open>GyroIntegrator: raw data access\<close>

text \<open>
  The argument of \<open>get_raw_data\<close> (an int or a string, as its docstring says), the
  index it becomes, and the reference it returns: a 1-D array for one column, an N x 3
  array for the slice.
\<close>

datatype axis = IntAxis int | StrAxis string

datatype index = Index int | Slice_1_4

datatype array_ref = Vec nat | Mat3 nat

definition axis_table :: "(string \<times> index) list" where
  "axis_table =
     [(''t'', Index 0), (''x'', Index 1), (''y'', Index 2), (''z'', Index 3), (''xyz'', Slice_1_4)]"

text \<open>Lines 250 to 256: a missing key of the dict raises KeyError.\<close>

definition axis_idx :: "axis \<Rightarrow> error + index" where
  "axis_idx a =
     (case a of
        IntAxis k \<Rightarrow> Inr (Index k)
      | StrAxis s \<Rightarrow> (case map_of axis_table s of None \<Rightarrow> Inl KeyError | Some i \<Rightarrow> Inr i))"

definition col4 :: "vec4 \<Rightarrow> nat \<Rightarrow> real" where
  "col4 r j =
     (case r of (t, x, y, z) \<Rightarrow> if j = 0 then t else if j = 1 then x else if j = 2 then y else z)"

text \<open>
  Line 258: \<open>np.copy(self.data[:,idx])\<close>. An int outside -4 .. 3 raises IndexError on
  the four columns; a negative one counts from the last column.
\<close>

definition get_raw_data :: "gyro_integrator \<Rightarrow> heap \<Rightarrow> axis \<Rightarrow> (error + array_ref) \<times> heap" where
  "get_raw_data self h a =
     (case axis_idx a of
        Inl e \<Rightarrow> (Inl e, h)
      | Inr (Index k) \<Rightarrow>
          (if - 4 \<le> k \<and> k < 4 then
             (let (r, h') = alloc_vec (map (\<lambda>s. col4 s (nat (k mod 4))) (mats4 h ! data self)) h
              in (Inr (Vec r), h'))
           else (Inl IndexError, h))
      | Inr Slice_1_4 \<Rightarrow>
          (let (r, h') = alloc_mat3 (map omega_of (mats4 h ! data self)) h
           in (Inr (Mat3 r), h')))"

subsection \<open>EulerIntegrator\<close>

text \<open>
  An attribute that no statement of the class assigns does not exist on the instance, and
  reading it raises AttributeError; \<open>Unset\<close> is that state. The class has no base class
  and never assigns \<open>self.orientation_list\<close>. Its arrays are not shared with a caller
  before \<open>integrate_all\<close> returns, so they are kept as values.
\<close>

datatype 'a attr = Unset | Attr 'a

type_synonym int3 = "int \<times> int \<times> int"

record euler_integrator =
  e_data :: "vec4 list"
  e_num_data_points :: nat
  e_euler_orientation_list :: "int3 list option"
  e_time_list :: "real list option"
  e_already_integrated :: bool
  e_orientation_list :: "vec3 list option attr"

text \<open>Lines 399 and 400: the two in-place column operations (no sign change here).\<close>

definition euler_scale_data :: "real \<Rightarrow> real \<Rightarrow> vec4 list \<Rightarrow> vec4 list" where
  "euler_scale_data time_scaling gyro_scaling d =
     (let d1 = map (\<lambda>(t, x, y, z). (t * time_scaling, x, y, z)) d
      in map (\<lambda>(t, x, y, z). (t, x * gyro_scaling, y * gyro_scaling, z * gyro_scaling)) d1)"

definition EulerIntegrator :: "vec4 list \<Rightarrow> real \<Rightarrow> real \<Rightarrow> bool \<Rightarrow> error + euler_integrator" where
  "EulerIntegrator input_data time_scaling gyro_scaling zero_out_time =
     (case zero_out zero_out_time (euler_scale_data time_scaling gyro_scaling input_data) of
        Inl e \<Rightarrow> Inl e
      | Inr d \<Rightarrow>
          Inr \<lparr>e_data = d,
               e_num_data_points = length d,
               e_euler_orientation_list = None,
               e_time_list = None,
               e_already_integrated = False,
               e_orientation_list = Unset\<rparr>)"

text \<open>
  Line 446: \<open>euler_orientation += omega * delta_time\<close>. The accumulator is
  \<open>np.array([0, 0, 0])\<close>, an array of int64, and the right-hand side is an array of
  float64 (\<open>delta_time\<close> is the result of a true division): numpy refuses to cast the sum
  back into the int64 array and raises UFuncTypeError, whatever the values.
\<close>

definition inplace_add :: "int3 \<Rightarrow> vec3 \<Rightarrow> error + int3" where
  "inplace_add acc v = Inl UFuncTypeError"

text \<open>The body of the loop (lines 433 to 449); its variables are \<open>euler_orientation\<close>,
  \<open>temp_orientation_list\<close> and \<open>temp_time_list\<close>.\<close>

definition euler_step ::
  "vec4 list \<Rightarrow> nat \<Rightarrow> nat \<Rightarrow> int3 \<times> int3 list \<times> real list
     \<Rightarrow> error + int3 \<times> int3 list \<times> real list" where
  "euler_step d n i s =
     (case s of (euler_orientation, temp_orientation_list, temp_time_list) \<Rightarrow>
        (case row d i of
           Inl e \<Rightarrow> Inl e
         | Inr r \<Rightarrow>
             (case adjacent_times d n i of
                Inl e \<Rightarrow> Inl e
              | Inr (last_time, this_time, next_time) \<Rightarrow>
                  (let omega = omega_of r;
                       delta_time = (next_time - last_time) / 2
                   in case (if any3 omega then inplace_add euler_orientation (scale3 omega delta_time)
                            else Inr euler_orientation) of
                        Inl e \<Rightarrow> Inl e
                      | Inr acc \<Rightarrow>
                          Inr (acc, temp_orientation_list @ [acc], temp_time_list @ [this_time])))))"

text \<open>Reading \<open>(self.time_list, self.orientation_list)\<close> for the \<open>return\<close>.\<close>

definition euler_track ::
  "euler_integrator \<Rightarrow> error + real list option \<times> vec3 list option" where
  "euler_track self =
     (case e_orientation_list self of
        Unset \<Rightarrow> Inl AttributeError
      | Attr ol \<Rightarrow> Inr (e_time_list self, ol))"

text \<open>\<open>EulerIntegrator.integrate_all\<close> (lines 415 to 458).\<close>

definition Euler_integrate_all ::
  "euler_integrator \<Rightarrow> (error + real list option \<times> vec3 list option) \<times> euler_integrator" where
  "Euler_integrate_all self =
     (if e_already_integrated self then (euler_track self, self)
      else
        (case for_each (euler_step (e_data self) (e_num_data_points self))
                [0..<e_num_data_points self] ((0, 0, 0), [], []) of
           (Some e, s) \<Rightarrow> (Inl e, self)
         | (None, (acc, qs, ts)) \<Rightarrow>
             (let self' = self\<lparr>e_euler_orientation_list := Some qs,
                               e_time_list := Some ts,
                               e_already_integrated := True\<rparr>
              in (euler_track self', self'))))"

text \<open>
  What the description of the integrator asks for: entry i is the sum over j \<le> i of
  \<open>omega_j * dt_j\<close>, with the symmetric \<open>dt_j\<close> and with samples of zero angular
  velocity adding nothing.
\<close>

definition symmetric_dt :: "vec4 list \<Rightarrow> nat \<Rightarrow> real" where
  "symmetric_dt d i =
     (fst (d ! (if i + 1 < length d then i + 1 else i)) - fst (d ! (if 0 < i then i - 1 else i))) / 2"

definition running_sum_spec :: "vec4 list \<Rightarrow> nat \<Rightarrow> vec3" where
  "running_sum_spec d i =
     (sum_list (map (\<lambda>j. fst (omega_of (d ! j)) * symmetric_dt d j) [0..<i + 1]),
      sum_list (map (\<lambda>j. fst (snd (omega_of (d ! j))) * symmetric_dt d j) [0..<i + 1]),
      sum_list (map (\<lambda>j. snd (snd (omega_of (d ! j))) * symmetric_dt d j) [0..<i + 1]))"

subsection \<open>Concrete stores and libraries for the examples\<close>

definition empty_heap :: heap where
  "empty_heap = \<lparr>vecs = [], mats3 = [], mats4 = []\<rparr>"

text \<open>An instance of the library with the primitives of the spec; the two functions that
  no example evaluates return fixed values.\<close>

definition example_lib :: qlib where
  "example_lib = spec_quat (\<lambda>a b ws. map (\<lambda>w. a) ws) (\<lambda>a b. b)"

text \<open>The instance the constructor builds from the given samples and time scaling, with
  the other arguments at their defaults.\<close>

definition example_instance :: "vec4 list \<Rightarrow> real \<Rightarrow> (error + gyro_integrator) \<times> heap" where
  "example_instance d ts = GyroIntegrator example_lib d ts 1 True None empty_heap"

subsection \<open>The orientation track as the description gives it\<close>

text \<open>
  What the description of \<open>integrate_all\<close> asks of one sample: a sample whose angular
  velocity is exactly zero leaves the orientation as it was, and any other sample
  multiplies it on the right by the incremental quaternion of \<open>rate_to_quat\<close> for the
  symmetric time step and normalises the product. \<open>spec_orientation L d q0 k\<close> is the
  orientation after the first k samples.
\<close>

definition spec_update :: "qlib \<Rightarrow> vec4 list \<Rightarrow> nat \<Rightarrow> vec4 \<Rightarrow> vec4" where
  "spec_update L d i prev =
     (if omega_of (d ! i) = (0, 0, 0) then prev
      else normalize_q L
             (quaternion_multiply L prev (rate_to_quat L (omega_of (d ! i)) (symmetric_dt d i))))"

fun spec_orientation :: "qlib \<Rightarrow> vec4 list \<Rightarrow> vec4 \<Rightarrow> nat \<Rightarrow> vec4" where
  "spec_orientation L d q0 0 = q0"
| "spec_orientation L d q0 (Suc k) = spec_update L d k (spec_orientation L d q0 k)"

text \<open>
  The invariant of an instance that the constructor establishes and no method breaks:
  \<open>self.data\<close> is an array of the store and \<open>num_data_points\<close> is the number of its rows.
\<close>

definition wf_instance :: "gyro_integrator \<Rightarrow> heap \<Rightarrow> bool" where
  "wf_instance self h =
     (data self < length (mats4 h) \<and> num_data_points self = length (mats4 h ! data self))"

text \<open>The instance and the store of \<open>example_instance\<close> with time scaling 1, and a smoothing
  algorithm that returns the track it is given.\<close>

definition example_self :: "vec4 list \<Rightarrow> gyro_integrator" where
  "example_self d = projr (fst (example_instance d 1))"

definition example_store :: "vec4 list \<Rightarrow> heap" where
  "example_store d = snd (example_instance d 1)"

definition example_algo :: smoothing where
  "example_algo =
     \<lparr>bypass_external_processing = False,
      get_smooth_orientations = (\<lambda>t q h. (Inr (t, q), h)),
      algo_get_stabilize_transform = (\<lambda>r h. (Inr (None, Some r), h))\<rparr>"

text \<open>Two samples at rest, one second apart, the instance built from them, and the result of
  integrating it.\<close>

definition still_input :: "vec4 list" where
  "still_input = [(0, 0, 0, 0), (1, 0, 0, 0)]"

definition still_run :: "(error + nat option \<times> nat option) \<times> gyro_integrator \<times> heap" where
  "still_run = integrate_all example_lib (example_self still_input) (example_store still_input)"

text \<open>Two samples of which the second turns about the z axis.\<close>

definition turn_input :: "vec4 list" where
  "turn_input = [(0, 0, 0, 0), (1, 0, 0, 2)]"

text \<open>The column a recognised key of \<open>get_raw_data\<close> selects: t, x, y, z are the columns 0
  to 3, and an int counts from the last column when it is negative.\<close>

definition selected_column :: "axis \<Rightarrow> nat" where
  "selected_column a =
     (case a of
        IntAxis k \<Rightarrow> nat (if k < 0 then k + 4 else k)
      | StrAxis s \<Rightarrow> (if s = ''t'' then 0 else if s = ''x'' then 1 else if s = ''y'' then 2 else 3))"

text \<open>Two samples turning about the x axis at 1 rad/s, one second apart.\<close>

definition euler_input :: "vec4 list" where
  "euler_input = [(0, 1, 0, 0), (1, 1, 0, 0)]"

text \<open>The invariant of the resampling loops used below: no output time lies beyond the
  bound, and there is one rotation for every output time.\<close>

definition bounded_out :: "real \<Rightarrow> real list \<Rightarrow> out_rot list \<Rightarrow> bool" where
  "bounded_out bound out_times rots =
     (list_all (\<lambda>t. t \<le> bound) out_times \<and> length rots = length out_times)"

text \<open>Three samples at rest at the times 0, 1 and 2, and the result of integrating the
  instance built from them.\<close>

definition three_input :: "vec4 list" where
  "three_input = [(0, 0, 0, 0), (1, 0, 0, 0), (2, 0, 0, 0)]"

definition three_run :: "(error + nat option \<times> nat option) \<times> gyro_integrator \<times> heap" where
  "three_run = integrate_all example_lib (example_self three_input) (example_store three_input)"

section \<open>Properties\<close>

subsection \<open>The constructor: truncation of out-of-order timestamps\<close>


lemma time_order_check_Cons2:
  "time_order_check (a # b # d) = (fst a > fst b) # time_order_check (b # d)"
  by (simp add: time_order_check_def)

lemma time_order_check_short: "time_order_check [] = []" "time_order_check [a] = []"
  by (simp_all add: time_order_check_def)

lemma truncate_bad_Nil: "truncate_bad [] = []"
  by (simp add: truncate_bad_def time_order_check_short np_any_def)

lemma truncate_bad_single: "truncate_bad [a] = [a]"
  by (simp add: truncate_bad_def time_order_check_short np_any_def)

lemma truncate_bad_Cons2:
  "truncate_bad (a # b # d) = (if fst a > fst b then [a] else a # truncate_bad (b # d))"
  by (simp add: truncate_bad_def time_order_check_Cons2 np_any_def np_argmax_def Let_def)

lemma truncate_bad_hd: "truncate_bad (a # d) = a # tl (truncate_bad (a # d))"
  by (cases d) (simp_all add: truncate_bad_single truncate_bad_Cons2)

lemma truncate_bad_sorted: "sorted (map fst (truncate_bad d))"
proof (induction d rule: induct_list012)
  case 1
  show ?case by (simp add: truncate_bad_Nil)
next
  case (2 a)
  show ?case by (simp add: truncate_bad_single)
next
  case (3 a b d)
  obtain r where r: "truncate_bad (b # d) = b # r"
    using truncate_bad_hd by blast
  with 3 show ?case
    by (auto simp add: truncate_bad_Cons2)
qed

text \<open>The kept prefix ends at the first sample that is later than its successor.\<close>

lemma truncate_bad_first:
  "Suc k < length d \<Longrightarrow> fst (d ! k) > fst (d ! Suc k) \<Longrightarrow>
   (\<And>j. j < k \<Longrightarrow> fst (d ! j) \<le> fst (d ! Suc j)) \<Longrightarrow> truncate_bad d = take (Suc k) d"
proof (induction d arbitrary: k rule: induct_list012)
  case 1
  then show ?case by simp
next
  case (2 a)
  then show ?case by simp
next
  case (3 a b d)
  show ?case
  proof (cases k)
    case 0
    with 3 show ?thesis by (simp add: truncate_bad_Cons2)
  next
    case (Suc k')
    have le: "fst a \<le> fst b" using "3.prems"(3)[of 0] Suc by simp
    have "truncate_bad (b # d) = take (Suc k') (b # d)"
    proof (rule "3.IH"(2))
      show "Suc k' < length (b # d)" using "3.prems"(1) Suc by simp
      show "fst ((b # d) ! Suc k') < fst ((b # d) ! k')" using "3.prems"(2) Suc by simp
      fix j assume "j < k'"
      then show "fst ((b # d) ! j) \<le> fst ((b # d) ! Suc j)"
        using "3.prems"(3)[of "Suc j"] Suc by simp
    qed
    with le Suc show ?thesis by (simp add: truncate_bad_Cons2)
  qed
qed

lemma truncate_bad_sorted_id: "sorted (map fst d) \<Longrightarrow> truncate_bad d = d"
  by (induction d rule: induct_list012)
     (auto simp add: truncate_bad_Nil truncate_bad_single truncate_bad_Cons2)

lemma fst_scale_data: "map fst (scale_data ts gs d) = map (\<lambda>t. t * ts) (map fst d)"
  by (simp add: scale_data_def Let_def case_prod_beta comp_def)

lemma sorted_map_mono: "sorted xs \<Longrightarrow> mono f \<Longrightarrow> sorted (map (f::real\<Rightarrow>real) xs)"
  by (induction xs) (auto dest: monoD)

lemma zero_out_times:
  "zero_out z d = Inr d' \<Longrightarrow> \<exists>c. map fst d' = map (\<lambda>t. t - c) (map fst d)"
proof (cases z)
  case True
  assume a: "zero_out z d = Inr d'"
  with True obtain r rs where "d = r # rs" by (cases d) (auto simp add: zero_out_def)
  with a True have "map fst d' = map (\<lambda>t. t - fst r) (map fst d)"
    by (auto simp add: zero_out_def case_prod_beta comp_def)
  then show ?thesis by blast
next
  case False
  assume "zero_out z d = Inr d'"
  with False have "map fst d' = map (\<lambda>t. t - 0) (map fst d)"
    by (simp add: zero_out_def)
  then show ?thesis by blast
qed

lemma GyroIntegrator_stored:
  assumes "GyroIntegrator L d ts gs z init h = (Inr self, h')"
  shows "\<exists>d'. zero_out z (scale_data ts gs (truncate_bad d)) = Inr d' \<and>
          mats4 h' ! data self = d' \<and> num_data_points self = length d' \<and>
          data self = length (mats4 h) \<and> mats4 h' = mats4 h @ [d'] \<and>
          vecs h' = vecs h \<and> mats3 h' = mats3 h \<and>
          \<not> already_integrated self \<and> orientation_list self = None \<and> time_list self = None \<and>
          orientation self = (case init of Some q \<Rightarrow> q | None \<Rightarrow> default_orientation) \<and>
          smoothing_algo self = None"
  using assms
  by (auto simp add: GyroIntegrator_def Let_def alloc_mat4_def split: sum.splits)

lemma stored_times_sorted:
  assumes "0 \<le> ts" and "GyroIntegrator L d ts gs z init h = (Inr self, h')"
  shows "sorted (stored_times self h')"
proof -
  from GyroIntegrator_stored[OF assms(2)] obtain d' where
    z: "zero_out z (scale_data ts gs (truncate_bad d)) = Inr d'" and
    s: "mats4 h' ! data self = d'" by blast
  from zero_out_times[OF z] obtain c where
    "map fst d' = map (\<lambda>t. t - c) (map fst (scale_data ts gs (truncate_bad d)))" by blast
  then have e: "map fst d' = map (\<lambda>t. t - c) (map (\<lambda>t. t * ts) (map fst (truncate_bad d)))"
    by (simp only: fst_scale_data)
  have "mono (\<lambda>t::real. t * ts)" using assms(1) by (simp add: mono_def mult_right_mono)
  then have "sorted (map (\<lambda>t. t * ts) (map fst (truncate_bad d)))"
    using truncate_bad_sorted sorted_map_mono by blast
  moreover have "mono (\<lambda>t::real. t - c)" by (simp add: mono_def)
  ultimately have "sorted (map fst d')" unfolding e using sorted_map_mono by blast
  with s show ?thesis by (simp add: stored_times_def)
qed

lemma stored_times_length:
  assumes "GyroIntegrator L d ts gs z init h = (Inr self, h')"
  shows "length (stored_times self h') = length (truncate_bad d)"
proof -
  from GyroIntegrator_stored[OF assms] obtain d' where
    z: "zero_out z (scale_data ts gs (truncate_bad d)) = Inr d'" and
    s: "mats4 h' ! data self = d'" by blast
  from zero_out_times[OF z] have "length (map fst d') = length (map fst (scale_data ts gs (truncate_bad d)))"
    by (metis length_map)
  then show ?thesis using s by (simp add: stored_times_def scale_data_def Let_def)
qed

lemma truncation_example:
  "stored_times (projr (fst (GyroIntegrator L [(0, a), (1, b), (2, c), (3 / 2, d), (3, e)] 1 g True init h)))
     (snd (GyroIntegrator L [(0, a), (1, b), (2, c), (3 / 2, d), (3, e)] 1 g True init h)) = [0, 1, 2]"
  by (simp add: GyroIntegrator_def truncate_bad_Cons2 truncate_bad_single scale_data_def zero_out_def
      sample_rate_def alloc_mat4_def stored_times_def Let_def case_prod_beta)


text \<open>
  C4 (as amended). With a time scaling that is not negative, the timestamps an instance
  stores never decrease from one sample to the next (equal neighbours stay, so the
  sequence need not be strictly increasing). The constructor keeps the samples up to and
  including the first one that is later than its successor, and all samples when there
  is none; timestamps [0, 1, 2, 1.5, 3] keep the prefix [0, 1, 2].
\<close>

theorem constructor_keeps_nondecreasing_prefix:
  assumes "0 \<le> time_scaling"
    and "GyroIntegrator L d time_scaling gs z init h = (Inr self, h')"
  shows "sorted (stored_times self h') \<and>
         length (stored_times self h') = length (truncate_bad d) \<and>
         (sorted (map fst d) \<longrightarrow> truncate_bad d = d) \<and>
         (\<forall>k. Suc k < length d \<and> fst (d ! Suc k) < fst (d ! k) \<and>
              (\<forall>j<k. fst (d ! j) \<le> fst (d ! Suc j)) \<longrightarrow> truncate_bad d = take (Suc k) d) \<and>
         (\<forall>a b c e f g i. stored_times
            (projr (fst (GyroIntegrator L [(0, a), (1, b), (2, c), (3 / 2, e), (3, f)] 1 g True i h)))
            (snd (GyroIntegrator L [(0, a), (1, b), (2, c), (3 / 2, e), (3, f)] 1 g True i h)) = [0, 1, 2])"
proof (intro conjI allI impI)
  show "sorted (stored_times self h')" using assms by (rule stored_times_sorted)
  show "length (stored_times self h') = length (truncate_bad d)"
    using assms(2) by (rule stored_times_length)
  show "truncate_bad d = d" if "sorted (map fst d)" using that by (rule truncate_bad_sorted_id)
  show "truncate_bad d = take (Suc k) d"
    if "Suc k < length d \<and> fst (d ! Suc k) < fst (d ! k) \<and> (\<forall>j<k. fst (d ! j) \<le> fst (d ! Suc j))" for k
    using that truncate_bad_first[of k d] by blast
  show "stored_times
            (projr (fst (GyroIntegrator L [(0, a), (1, b), (2, c), (3 / 2, e), (3, f)] 1 g True i h)))
            (snd (GyroIntegrator L [(0, a), (1, b), (2, c), (3 / 2, e), (3, f)] 1 g True i h)) = [0, 1, 2]"
    for a b c e f g i by (rule truncation_example)
qed

lemma example_instance_trunc:
  "example_instance [(0, 1, 2, 3), (1, 0, 0, 0), (2, 0, 0, 0), (3 / 2, 0, 0, 0), (3, 0, 0, 0)] 1 =
     (Inr (projr (fst (example_instance [(0, 1, 2, 3), (1, 0, 0, 0), (2, 0, 0, 0), (3 / 2, 0, 0, 0), (3, 0, 0, 0)] 1))),
      snd (example_instance [(0, 1, 2, 3), (1, 0, 0, 0), (2, 0, 0, 0), (3 / 2, 0, 0, 0), (3, 0, 0, 0)] 1))"
  by (simp add: example_instance_def GyroIntegrator_def truncate_bad_Cons2 truncate_bad_single scale_data_def zero_out_def
      sample_rate_def alloc_mat4_def Let_def case_prod_beta)

theorem constructor_keeps_nondecreasing_prefix_witness:
  "(0::real) \<le> 1 \<and>
   \<not> isl (fst (example_instance [(0, 1, 2, 3), (1, 0, 0, 0), (2, 0, 0, 0), (3 / 2, 0, 0, 0), (3, 0, 0, 0)] 1)) \<and>
   sorted (stored_times
     (projr (fst (example_instance [(0, 1, 2, 3), (1, 0, 0, 0), (2, 0, 0, 0), (3 / 2, 0, 0, 0), (3, 0, 0, 0)] 1)))
     (snd (example_instance [(0, 1, 2, 3), (1, 0, 0, 0), (2, 0, 0, 0), (3 / 2, 0, 0, 0), (3, 0, 0, 0)] 1))) \<and>
   stored_times
     (projr (fst (example_instance [(0, 1, 2, 3), (1, 0, 0, 0), (2, 0, 0, 0), (3 / 2, 0, 0, 0), (3, 0, 0, 0)] 1)))
     (snd (example_instance [(0, 1, 2, 3), (1, 0, 0, 0), (2, 0, 0, 0), (3 / 2, 0, 0, 0), (3, 0, 0, 0)] 1)) = [0, 1, 2]"
proof -
  have le: "(0::real) \<le> 1" by simp
  note t = constructor_keeps_nondecreasing_prefix[OF le example_instance_trunc[unfolded example_instance_def], folded example_instance_def]
  have r: "\<not> isl (fst (example_instance [(0, 1, 2, 3), (1, 0, 0, 0), (2, 0, 0, 0), (3 / 2, 0, 0, 0), (3, 0, 0, 0)] 1))"
    by (subst example_instance_trunc) simp
  have e: "stored_times
     (projr (fst (example_instance [(0, 1, 2, 3), (1, 0, 0, 0), (2, 0, 0, 0), (3 / 2, 0, 0, 0), (3, 0, 0, 0)] 1)))
     (snd (example_instance [(0, 1, 2, 3), (1, 0, 0, 0), (2, 0, 0, 0), (3 / 2, 0, 0, 0), (3, 0, 0, 0)] 1)) = [0, 1, 2]"
    unfolding example_instance_def by (rule truncation_example)
  from le r t e show ?thesis by blast
qed

text \<open>
  The claim as stated fails: timestamps [0, 1, 1, 2] are stored as they are, which is not
  strictly increasing; and a time scaling of -1 stores [0, 1, 2] as [0, -1, -2].
\<close>

theorem strictly_increasing_counterexample:
  "stored_times (projr (fst (example_instance [(0, 0, 0, 0), (1, 0, 0, 0), (1, 0, 0, 0), (2, 0, 0, 0)] 1)))
     (snd (example_instance [(0, 0, 0, 0), (1, 0, 0, 0), (1, 0, 0, 0), (2, 0, 0, 0)] 1)) = [0, 1, 1, 2] \<and>
   \<not> sorted_wrt (<) (stored_times (projr (fst (example_instance [(0, 0, 0, 0), (1, 0, 0, 0), (1, 0, 0, 0), (2, 0, 0, 0)] 1)))
     (snd (example_instance [(0, 0, 0, 0), (1, 0, 0, 0), (1, 0, 0, 0), (2, 0, 0, 0)] 1))) \<and>
   stored_times (projr (fst (example_instance [(0, 0, 0, 0), (1, 0, 0, 0), (2, 0, 0, 0)] (- 1))))
     (snd (example_instance [(0, 0, 0, 0), (1, 0, 0, 0), (2, 0, 0, 0)] (- 1))) = [0, - 1, - 2]"
  by (simp add: example_instance_def example_lib_def empty_heap_def GyroIntegrator_def truncate_bad_Cons2 truncate_bad_single scale_data_def zero_out_def
      sample_rate_def alloc_mat4_def stored_times_def Let_def case_prod_beta)

subsection \<open>The incremental rotation\<close>

lemma rate_to_quat_unfold:
  "rate_to_quat L (ox, oy, oz) dt =
     (let hx = ox * dt / 2; hy = oy * dt / 2; hz = oz * dt / 2;
          l = sqrt (hx * hx + hy * hy + hz * hz)
      in if l > 1 / 10 ^ 12
         then normalize_q L (quaternion L (cos l) (hx * sin l / l) (hy * sin l / l) (hz * sin l / l))
         else quaternion L 1 0 0 0)"
  by (simp add: rate_to_quat_def scale3_def dot3_def Let_def)

lemma half_pi_large: "1 / 10 ^ 12 < pi / 2"
proof -
  have "(1::real) / 10 ^ 12 < 1" by simp
  also have "\<dots> \<le> pi / 2" using pi_ge_two by simp
  finally show ?thesis .
qed

lemma sqrt_half_pi: "sqrt (pi / 2 * (pi / 2)) = pi / 2"
proof -
  have "sqrt (pi / 2 * (pi / 2)) = \<bar>pi / 2\<bar>" by (rule real_sqrt_abs2)
  then show ?thesis by simp
qed

lemma rate_to_quat_half_turn:
  "rate_to_quat (spec_quat sl rb) (0, 0, pi) 1 = (0, 0, 0, 1)"
proof -
  have "rate_to_quat (spec_quat sl rb) (0, 0, pi) 1 =
        (let l = sqrt (pi / 2 * (pi / 2)) in
          if l > 1 / 10 ^ 12
          then spec_normalize (spec_quaternion (cos l) 0 0 (pi / 2 * sin l / l))
          else spec_quaternion 1 0 0 0)"
    by (simp add: rate_to_quat_unfold Let_def spec_quat_def del: real_sqrt_gt_0_iff real_sqrt_mult)
  also have "\<dots> = spec_normalize (spec_quaternion 0 0 0 1)"
    unfolding sqrt_half_pi Let_def using half_pi_large by simp
  also have "\<dots> = (0, 0, 0, 1)"
    by (simp add: spec_normalize_def spec_quaternion_def)
  finally show ?thesis .
qed

lemma unit_before_normalize:
  assumes "l = sqrt (hx * hx + hy * hy + hz * hz)" and "0 < l"
  shows "cos l * cos l + (hx * sin l / l) * (hx * sin l / l) + (hy * sin l / l) * (hy * sin l / l)
           + (hz * sin l / l) * (hz * sin l / l) = 1"
proof -
  have nn: "0 \<le> hx * hx + hy * hy + hz * hz" by simp
  have sq: "l * l = hx * hx + hy * hy + hz * hz"
    unfolding assms(1) using nn by (metis real_sqrt_mult_self abs_of_nonneg)
  have "(hx * sin l / l) * (hx * sin l / l) + (hy * sin l / l) * (hy * sin l / l)
           + (hz * sin l / l) * (hz * sin l / l) = (hx * hx + hy * hy + hz * hz) * (sin l * sin l) / (l * l)"
    by (simp add: algebra_simps add_divide_distrib)
  also have "\<dots> = (l * l) * (sin l * sin l) / (l * l)" by (simp only: sq)
  also have "\<dots> = sin l * sin l" using assms(2) by simp
  finally have e: "(hx * sin l / l) * (hx * sin l / l) + (hy * sin l / l) * (hy * sin l / l)
           + (hz * sin l / l) * (hz * sin l / l) = sin l * sin l" .
  have c: "cos l * cos l + sin l * sin l = 1"
    using sin_cos_squared_add2[of l] by (simp add: power2_eq_square)
  from e c show ?thesis by linarith
qed

lemma spec_normalize_unit:
  "w * w + x * x + y * y + z * z = 1 \<Longrightarrow> spec_normalize (w, x, y, z) = (w, x, y, z)"
  by (simp add: spec_normalize_def)

text \<open>With the primitives of the spec the quaternion is already of unit length before it is
  normalised, so the normalisation changes nothing.\<close>

lemma rate_to_quat_spec_unit:
  assumes "1 / 10 ^ 12 < sqrt ((ox * dt / 2) * (ox * dt / 2) + (oy * dt / 2) * (oy * dt / 2) + (oz * dt / 2) * (oz * dt / 2))"
  shows "rate_to_quat (spec_quat sl rb) (ox, oy, oz) dt =
     (let hx = ox * dt / 2; hy = oy * dt / 2; hz = oz * dt / 2;
          l = sqrt (hx * hx + hy * hy + hz * hz)
      in (cos l, hx * sin l / l, hy * sin l / l, hz * sin l / l))"
proof -
  define hx where "hx = ox * dt / 2"
  define hy where "hy = oy * dt / 2"
  define hz where "hz = oz * dt / 2"
  define l where "l = sqrt (hx * hx + hy * hy + hz * hz)"
  have big: "1 / 10 ^ 12 < l" using assms by (simp only: l_def hx_def hy_def hz_def)
  have "(0::real) < 1 / 10 ^ 12" by simp
  with big have pos: "0 < l" by linarith
  have "rate_to_quat (spec_quat sl rb) (ox, oy, oz) dt =
          (if l > 1 / 10 ^ 12
           then spec_normalize (cos l, hx * sin l / l, hy * sin l / l, hz * sin l / l)
           else (1, 0, 0, 0))"
    unfolding rate_to_quat_unfold Let_def l_def hx_def hy_def hz_def
    by (simp only: spec_quat_def spec_quaternion_def qlib.simps)
  also have "\<dots> = spec_normalize (cos l, hx * sin l / l, hy * sin l / l, hz * sin l / l)"
    using big by simp
  also have "\<dots> = (cos l, hx * sin l / l, hy * sin l / l, hz * sin l / l)"
    by (rule spec_normalize_unit) (rule unit_before_normalize[OF l_def pos])
  finally show ?thesis unfolding Let_def l_def hx_def hy_def hz_def .
qed

text \<open>
  C6. For every angular velocity and time step, \<open>rate_to_quat\<close> takes the half-angle
  vector ha = omega * dt / 2 and its length l; when l exceeds 1e-12 it returns the
  normalisation of the quaternion (cos l, ha * sin l / l), and the identity quaternion
  (1, 0, 0, 0) otherwise. With the quaternion primitives of the spec, omega = [0, 0, pi]
  and dt = 1 give (0, 0, 0, 1); over the reals the value is exact, so it lies within
  every tolerance.
\<close>

theorem rate_to_quat_exponential_map:
  "rate_to_quat L (ox, oy, oz) dt =
     (let hx = ox * dt / 2; hy = oy * dt / 2; hz = oz * dt / 2;
          l = sqrt (hx * hx + hy * hy + hz * hz)
      in if l > 1 / 10 ^ 12
         then normalize_q L (quaternion L (cos l) (hx * sin l / l) (hy * sin l / l) (hz * sin l / l))
         else quaternion L 1 0 0 0) \<and>
   rate_to_quat (spec_quat sl rb) (0, 0, pi) 1 = (0, 0, 0, 1)"
  using rate_to_quat_unfold rate_to_quat_half_turn by blast

subsection \<open>The integration loop\<close>

lemma for_each_append:
  "for_each body (xs @ ys) s =
     (case for_each body xs s of (Some e, s') \<Rightarrow> (Some e, s') | (None, s') \<Rightarrow> for_each body ys s')"
  by (induction xs arbitrary: s) (auto split: sum.splits)

lemma for_each_single:
  "body i s = Inr s' \<Longrightarrow> for_each body [i] s = (None, s')"
  by simp

lemma any3_iff: "any3 v \<longleftrightarrow> v \<noteq> (0, 0, 0)"
  by (cases v) (auto simp add: any3_def)

lemma adjacent_times_ok:
  assumes "i < length d"
  shows "adjacent_times d (length d) i =
           Inr (fst (d ! (if 0 < i then i - 1 else i)), fst (d ! i),
                fst (d ! (if i + 1 < length d then i + 1 else i)))"
proof -
  have a: "(int i < int (length d) - 1) = (i + 1 < length d)" by linarith
  show ?thesis using assms by (auto simp add: adjacent_times_def row_def a)
qed

lemma integrate_step_ok:
  assumes "i < length d"
  shows "integrate_step L d (length d) i (q, qs, ts) =
           Inr (spec_update L d i q, qs @ [spec_update L d i q], ts @ [fst (d ! i)])"
  using assms
  by (simp add: integrate_step_def adjacent_times_ok row_def spec_update_def symmetric_dt_def
      any3_iff Let_def)

lemma integrate_loop:
  "k \<le> length d \<Longrightarrow>
   for_each (integrate_step L d (length d)) [0..<k] (q0, qs0, ts0) =
     (None, (spec_orientation L d q0 k,
             qs0 @ map (\<lambda>i. spec_orientation L d q0 (Suc i)) [0..<k],
             ts0 @ map (\<lambda>i. fst (d ! i)) [0..<k]))"
proof (induction k)
  case 0
  show ?case by simp
next
  case (Suc k)
  then have k: "k < length d" and IH: "for_each (integrate_step L d (length d)) [0..<k] (q0, qs0, ts0) =
     (None, (spec_orientation L d q0 k,
             qs0 @ map (\<lambda>i. spec_orientation L d q0 (Suc i)) [0..<k],
             ts0 @ map (\<lambda>i. fst (d ! i)) [0..<k]))" by simp_all
  have u: "[0..<Suc k] = [0..<k] @ [k]" by simp
  let ?q = "spec_orientation L d q0 k"
  let ?qs = "qs0 @ map (\<lambda>i. spec_orientation L d q0 (Suc i)) [0..<k]"
  let ?ts = "ts0 @ map (\<lambda>i. fst (d ! i)) [0..<k]"
  have s: "for_each (integrate_step L d (length d)) [k] (?q, ?qs, ?ts) =
             (None, (spec_update L d k ?q, ?qs @ [spec_update L d k ?q], ?ts @ [fst (d ! k)]))"
    by (rule for_each_single) (rule integrate_step_ok[OF k])
  have "for_each (integrate_step L d (length d)) [0..<Suc k] (q0, qs0, ts0) =
          for_each (integrate_step L d (length d)) [k] (?q, ?qs, ?ts)"
    unfolding u for_each_append IH by (simp only: prod.case option.case)
  also note s
  finally show ?case by (simp only: u map_append list.map append_assoc spec_orientation.simps)
qed

lemma map_fst_nth: "map (\<lambda>i. fst (d ! i)) [0..<length d] = map fst d"
  by (rule nth_equalityI) simp_all

lemma integrate_all_fresh:
  assumes "wf_instance self h" and "\<not> already_integrated self"
  shows "integrate_all L self h =
    (Inr (Some (length (vecs h)), Some (length (mats4 h))),
     self\<lparr>orientation := spec_orientation L (mats4 h ! data self) (orientation self) (num_data_points self),
          orientation_list := Some (length (mats4 h)),
          time_list := Some (length (vecs h)),
          already_integrated := True\<rparr>,
     h\<lparr>mats4 := mats4 h @ [map (\<lambda>i. spec_orientation L (mats4 h ! data self) (orientation self) (Suc i))
                              [0..<num_data_points self]],
       vecs := vecs h @ [map fst (mats4 h ! data self)]\<rparr>)"
proof -
  have n: "num_data_points self = length (mats4 h ! data self)"
    using assms(1) by (simp add: wf_instance_def)
  show ?thesis
    using assms(2)
    by (simp add: integrate_all_def n integrate_loop alloc_mat4_def alloc_vec_def map_fst_nth)
qed

lemma integrate_all_cached:
  "already_integrated self \<Longrightarrow>
   integrate_all L self h = (Inr (time_list self, orientation_list self), self, h)"
  by (simp add: integrate_all_def)

lemma GyroIntegrator_wf:
  assumes "GyroIntegrator L d ts gs z init h = (Inr self, h')"
  shows "wf_instance self h' \<and> \<not> already_integrated self \<and> orientation_list self = None"
  using assms
  by (auto simp add: GyroIntegrator_def Let_def alloc_mat4_def wf_instance_def split: sum.splits)

lemma GyroIntegrator_total:
  assumes "d \<noteq> []"
  shows "\<exists>self h'. GyroIntegrator L d ts gs z init h = (Inr self, h')"
proof -
  obtain a r where d: "d = a # r" using assms by (cases d) auto
  obtain t where t: "truncate_bad d = a # t" unfolding d using truncate_bad_hd by blast
  show ?thesis
    by (simp add: GyroIntegrator_def t scale_data_def zero_out_def sample_rate_def alloc_mat4_def
        Let_def case_prod_beta)
qed

lemma example_instance_ok:
  "d \<noteq> [] \<Longrightarrow> example_instance d 1 = (Inr (example_self d), example_store d)"
  using GyroIntegrator_total[of d example_lib 1 1 True None empty_heap]
  by (auto simp add: example_instance_def example_self_def example_store_def)

lemma example_wf:
  "d \<noteq> [] \<Longrightarrow> wf_instance (example_self d) (example_store d) \<and>
     \<not> already_integrated (example_self d) \<and> orientation_list (example_self d) = None"
  using example_instance_ok[of d] GyroIntegrator_wf[of example_lib d 1 1 True None empty_heap]
  by (simp add: example_instance_def)

lemma example_still:
  "example_self still_input =
     \<lparr>data = 0, num_data_points = 2, gyro_sample_rate = Some 2, orientation = default_orientation,
      orientation_list = None, time_list = None, imuRefX = (1, 0, 0), imuRefY = (0, 0, 1),
      already_integrated = False, smoothing_algo = None\<rparr>"
  "example_store still_input =
     \<lparr>vecs = [], mats3 = [], mats4 = [[(0, 0, 0, 0), (1, 0, 0, 0)]]\<rparr>"
  by (simp_all add: still_input_def example_self_def example_store_def example_instance_def example_lib_def
      spec_quat_def spec_vector_def empty_heap_def GyroIntegrator_def truncate_bad_Cons2
      truncate_bad_single scale_data_def zero_out_def sample_rate_def alloc_mat4_def Let_def)

lemma example_still_integrated:
  "integrate_all L (example_self still_input) (example_store still_input) =
     (Inr (Some 0, Some 1),
      \<lparr>data = 0, num_data_points = 2, gyro_sample_rate = Some 2, orientation = default_orientation,
       orientation_list = Some 1, time_list = Some 0, imuRefX = (1, 0, 0), imuRefY = (0, 0, 1),
       already_integrated = True, smoothing_algo = None\<rparr>,
      \<lparr>vecs = [[0, 1]], mats3 = [],
       mats4 = [[(0, 0, 0, 0), (1, 0, 0, 0)], [default_orientation, default_orientation]]\<rparr>)"
proof -
  have u: "[0..<2::nat] = [0, Suc 0]" by (simp add: numeral_2_eq_2 upt_conv_Cons)
  show ?thesis
    unfolding example_still
    by (simp add: integrate_all_def integrate_step_def adjacent_times_def row_def omega_of_def any3_def
        alloc_mat4_def alloc_vec_def Let_def u)
qed

lemma spec_orientation_zero:
  "k \<le> length d \<Longrightarrow> \<forall>r\<in>set d. omega_of r = (0, 0, 0) \<Longrightarrow> spec_orientation L d q0 k = q0"
  by (induction k) (simp_all add: spec_update_def)

lemma spec_orientation_step:
  "i < n \<Longrightarrow>
   map (\<lambda>i. spec_orientation L d q0 (Suc i)) [0..<n] ! i =
     spec_update L d i (if i = 0 then q0 else map (\<lambda>i. spec_orientation L d q0 (Suc i)) [0..<n] ! (i - 1))"
  by (cases i) simp_all

text \<open>
  C7. On an instance that has not been integrated, \<open>integrate_all\<close> returns the
  timestamps of the samples and one orientation per sample. For every sample index i the
  time step is (t[i+1] - t[i-1]) / 2, with t[i] in place of the neighbour the first and the
  last sample lack; a sample whose angular velocity is exactly zero leaves the orientation
  as the previous entry has it (the initial orientation at i = 0), and every other sample
  gives normalize(previous * rate_to_quat(omega, dt)), the increment on the right.
\<close>

theorem integrate_all_recurrence:
  assumes "wf_instance self h" and "\<not> already_integrated self"
  shows "\<exists>rt ro self' h'.
     integrate_all L self h = (Inr (Some rt, Some ro), self', h') \<and>
     vecs h' ! rt = map fst (mats4 h ! data self) \<and>
     length (mats4 h' ! ro) = num_data_points self \<and>
     (\<forall>i<num_data_points self.
        mats4 h' ! ro ! i =
          (let d = mats4 h ! data self;
               n = length d;
               prev = (if i = 0 then orientation self else mats4 h' ! ro ! (i - 1));
               omega = omega_of (d ! i);
               dt = (fst (d ! (if i + 1 < n then i + 1 else i)) -
                     fst (d ! (if 0 < i then i - 1 else i))) / 2
           in if omega = (0, 0, 0) then prev
              else normalize_q L (quaternion_multiply L prev (rate_to_quat L omega dt))))"
proof -
  let ?d = "mats4 h ! data self"
  let ?qs = "map (\<lambda>i. spec_orientation L ?d (orientation self) (Suc i)) [0..<num_data_points self]"
  let ?h' = "h\<lparr>mats4 := mats4 h @ [?qs], vecs := vecs h @ [map fst ?d]\<rparr>"
  have a: "vecs ?h' ! length (vecs h) = map fst ?d" by simp
  have b: "mats4 ?h' ! length (mats4 h) = ?qs" by simp
  have c: "length ?qs = num_data_points self" by simp
  have e: "?qs ! i =
          (let d = ?d;
               n = length d;
               prev = (if i = 0 then orientation self else ?qs ! (i - 1));
               omega = omega_of (d ! i);
               dt = (fst (d ! (if i + 1 < n then i + 1 else i)) -
                     fst (d ! (if 0 < i then i - 1 else i))) / 2
           in if omega = (0, 0, 0) then prev
              else normalize_q L (quaternion_multiply L prev (rate_to_quat L omega dt)))"
    if "i < num_data_points self" for i
    unfolding spec_orientation_step[OF that] by (simp add: spec_update_def symmetric_dt_def Let_def)
  show ?thesis
    unfolding integrate_all_fresh[OF assms]
    apply (intro exI conjI)
       apply (rule refl)
      apply (rule a)
     apply (simp only: b c)
    apply (simp only: b)
    using e by blast
qed

lemma still_ne: "still_input \<noteq> []" and turn_ne: "turn_input \<noteq> []"
  by (simp_all add: still_input_def turn_input_def)

text \<open>The recurrence at an instance of two samples, the second one turning.\<close>

theorem integrate_all_recurrence_witness:
  "wf_instance (example_self turn_input) (example_store turn_input) \<and>
   \<not> already_integrated (example_self turn_input) \<and>
   (\<exists>rt ro self' h'.
      integrate_all example_lib (example_self turn_input) (example_store turn_input) =
        (Inr (Some rt, Some ro), self', h') \<and>
      vecs h' ! rt = map fst (mats4 (example_store turn_input) ! data (example_self turn_input)) \<and>
      length (mats4 h' ! ro) = num_data_points (example_self turn_input))"
proof -
  from example_wf[OF turn_ne] have w: "wf_instance (example_self turn_input) (example_store turn_input)"
    and n: "\<not> already_integrated (example_self turn_input)" by simp_all
  from integrate_all_recurrence[OF w n, of example_lib] w n show ?thesis by blast
qed

subsection \<open>Samples at rest\<close>

lemma set_truncate_bad: "set (truncate_bad d) \<subseteq> set d"
  by (simp add: truncate_bad_def Let_def set_take_subset)

lemma scale_data_zero:
  "\<forall>r\<in>set d. omega_of r = (0, 0, 0) \<Longrightarrow> \<forall>r\<in>set (scale_data ts gs d). omega_of r = (0, 0, 0)"
  by (auto simp add: scale_data_def Let_def omega_of_def)

lemma zero_out_zero:
  "zero_out z d = Inr d' \<Longrightarrow> \<forall>r\<in>set d. omega_of r = (0, 0, 0) \<Longrightarrow>
   \<forall>r\<in>set d'. omega_of r = (0, 0, 0)"
  by (cases d) (auto simp add: zero_out_def omega_of_def split: if_splits)

lemma zero_track:
  assumes "\<forall>r\<in>set d. omega_of r = (0, 0, 0)"
  shows "map (\<lambda>i. spec_orientation L d q0 (Suc i)) [0..<length d] = replicate (length d) q0"
proof (rule nth_equalityI)
  show "length (map (\<lambda>i. spec_orientation L d q0 (Suc i)) [0..<length d]) = length (replicate (length d) q0)"
    by simp
  fix i assume "i < length (map (\<lambda>i. spec_orientation L d q0 (Suc i)) [0..<length d])"
  then have i: "Suc i \<le> length d" by simp
  then show "map (\<lambda>i. spec_orientation L d q0 (Suc i)) [0..<length d] ! i = replicate (length d) q0 ! i"
    using spec_orientation_zero[OF i assms, of L q0] by (simp del: spec_orientation.simps)
qed

text \<open>
  C3 (as amended). For every input whose angular-velocity columns are all exactly zero,
  \<open>integrate_all\<close> on the instance built from it returns an orientation list in which
  every entry equals the initial orientation exactly as it was given (the argument, or
  the default [1, 0.0001, 0.0001, 0.0001]): the orientation is held, and it is not
  normalised.
\<close>

theorem zero_rate_holds_initial_orientation:
  assumes "GyroIntegrator L d ts gs z init h0 = (Inr self, h)"
    and "\<forall>r\<in>set d. omega_of r = (0, 0, 0)"
  shows "\<exists>rt ro self' h'.
     integrate_all L self h = (Inr (Some rt, Some ro), self', h') \<and>
     mats4 h' ! ro =
       replicate (length (truncate_bad d)) (case init of Some q \<Rightarrow> q | None \<Rightarrow> default_orientation) \<and>
     orientation self' = (case init of Some q \<Rightarrow> q | None \<Rightarrow> default_orientation)"
proof -
  from GyroIntegrator_stored[OF assms(1)] obtain d' where
    z: "zero_out z (scale_data ts gs (truncate_bad d)) = Inr d'" and
    s: "mats4 h ! data self = d'" and n: "num_data_points self = length d'" and
    o: "orientation self = (case init of Some q \<Rightarrow> q | None \<Rightarrow> default_orientation)"
    by blast
  from GyroIntegrator_wf[OF assms(1)] have w: "wf_instance self h" and f: "\<not> already_integrated self"
    by simp_all
  have "\<forall>r\<in>set (truncate_bad d). omega_of r = (0, 0, 0)"
    using assms(2) set_truncate_bad by blast
  then have zz: "\<forall>r\<in>set d'. omega_of r = (0, 0, 0)"
    using zero_out_zero[OF z] scale_data_zero by blast
  have l: "length d' = length (truncate_bad d)"
    using stored_times_length[OF assms(1)] s by (simp add: stored_times_def)
  have q: "spec_orientation L d' (orientation self) (length d') = orientation self"
    by (rule spec_orientation_zero[OF _ zz]) simp
  have t: "map (\<lambda>i. spec_orientation L (mats4 h ! data self) (orientation self) (Suc i))
             [0..<num_data_points self] =
           replicate (length (truncate_bad d)) (case init of Some q \<Rightarrow> q | None \<Rightarrow> default_orientation)"
    using zero_track[OF zz, of L "orientation self"] unfolding s n l o .
  have q': "spec_orientation L (mats4 h ! data self) (orientation self) (num_data_points self) =
           (case init of Some q \<Rightarrow> q | None \<Rightarrow> default_orientation)"
    using q unfolding s n l o .
  show ?thesis
    unfolding integrate_all_fresh[OF w f] t q'
    by (intro exI conjI, rule refl) simp_all
qed

theorem zero_rate_holds_initial_orientation_witness:
  "example_instance still_input 1 = (Inr (example_self still_input), example_store still_input) \<and>
   list_all (\<lambda>r. omega_of r = (0, 0, 0)) still_input \<and>
   (\<exists>rt ro self' h'.
     integrate_all example_lib (example_self still_input) (example_store still_input) =
       (Inr (Some rt, Some ro), self', h') \<and>
     mats4 h' ! ro = replicate (length (truncate_bad still_input)) default_orientation)"
proof -
  have a: "GyroIntegrator example_lib still_input 1 1 True None empty_heap =
             (Inr (example_self still_input), example_store still_input)"
    using example_instance_ok[OF still_ne] by (simp add: example_instance_def)
  have b: "\<forall>r\<in>set still_input. omega_of r = (0, 0, 0)"
    by (simp add: still_input_def omega_of_def)
  from zero_rate_holds_initial_orientation[OF a b] a b show ?thesis
    by (auto simp add: example_instance_def list_all_iff)
qed

text \<open>
  The claim as stated fails for the default initial orientation, which is not of unit
  length: two samples at rest give the default orientation twice, and normalising it
  changes it.
\<close>

lemma default_not_unit: "default_orientation \<noteq> spec_normalize default_orientation"
proof
  let ?n = "sqrt (1 * 1 + 1 / 10000 * (1 / 10000) + 1 / 10000 * (1 / 10000) + 1 / 10000 * (1 / 10000))"
  assume "default_orientation = spec_normalize default_orientation"
  then have "fst default_orientation = fst (spec_normalize default_orientation)" by simp
  then have e: "(1::real) = 1 / ?n"
    by (simp add: default_orientation_def spec_normalize_def Let_def del: real_sqrt_eq_1_iff)
  have "?n \<noteq> 0" by simp
  with e have "?n = 1" by (simp add: field_simps del: real_sqrt_eq_1_iff)
  then have "(1 * 1 + 1 / 10000 * (1 / 10000) + 1 / 10000 * (1 / 10000) + 1 / 10000 * (1 / 10000)) = (1::real)"
    by (simp only: real_sqrt_eq_1_iff)
  then show False by simp
qed

theorem normalized_initial_counterexample:
  "orientation (example_self still_input) = default_orientation \<and>
   snd (read_track (snd (snd still_run)) (projr (fst still_run))) =
     Some [default_orientation, default_orientation] \<and>
   default_orientation \<noteq> normalize_q example_lib default_orientation"
proof -
  have a: "orientation (example_self still_input) = default_orientation"
    by (simp add: example_still)
  have b: "snd (read_track (snd (snd still_run)) (projr (fst still_run))) =
     Some [default_orientation, default_orientation]"
    unfolding still_run_def example_still_integrated by (simp add: read_track_def)
  have c: "default_orientation \<noteq> normalize_q example_lib default_orientation"
    using default_not_unit by (simp add: example_lib_def spec_quat_def)
  from a b c show ?thesis by blast
qed

subsection \<open>The cached track\<close>

text \<open>
  C8. \<open>integrate_all\<close> is idempotent: on every well-formed instance the call returns,
  and a second call returns the same pair of arrays and changes neither the instance nor
  the store. The first call on an instance that is not yet integrated computes the track
  and caches it: it returns two new arrays, the timestamps of the samples and the
  orientation after each sample (\<open>spec_orientation\<close>), keeps their references in
  \<open>time_list\<close> and \<open>orientation_list\<close>, sets \<open>already_integrated\<close>, and leaves every
  older array of the store as it was. Once an instance is integrated, a call computes
  nothing and changes nothing.
\<close>

theorem integrate_all_idempotent:
  assumes "wf_instance self h"
  shows "\<exists>p self' h'.
     integrate_all L self h = (Inr p, self', h') \<and>
     integrate_all L self' h' = (Inr p, self', h') \<and>
     already_integrated self' \<and>
     p = (time_list self', orientation_list self') \<and>
     (already_integrated self \<longrightarrow> self' = self \<and> h' = h) \<and>
     (\<not> already_integrated self \<longrightarrow>
        p = (Some (length (vecs h)), Some (length (mats4 h))) \<and>
        read_track h' p =
          (Some (map fst (mats4 h ! data self)),
           Some (map (\<lambda>i. spec_orientation L (mats4 h ! data self) (orientation self) (Suc i))
                   [0..<num_data_points self])) \<and>
        orientation self' =
          spec_orientation L (mats4 h ! data self) (orientation self) (num_data_points self) \<and>
        data self' = data self \<and> num_data_points self' = num_data_points self \<and>
        take (length (vecs h)) (vecs h') = vecs h \<and>
        take (length (mats4 h)) (mats4 h') = mats4 h \<and>
        mats3 h' = mats3 h \<and> wf_instance self' h')"
proof (cases "already_integrated self")
  case True
  then show ?thesis by (simp add: integrate_all_cached)
next
  case False
  have d: "data self < length (mats4 h)" and n: "num_data_points self = length (mats4 h ! data self)"
    using assms by (simp_all add: wf_instance_def)
  have d': "data self < Suc (length (mats4 h))" using d by simp
  show ?thesis
    unfolding integrate_all_fresh[OF assms False]
    by (intro exI conjI, rule refl)
       (simp_all add: integrate_all_cached False read_track_def wf_instance_def d d' n nth_append
          del: spec_orientation.simps)
qed

theorem integrate_all_idempotent_witness:
  "wf_instance (example_self turn_input) (example_store turn_input) \<and>
   \<not> already_integrated (example_self turn_input) \<and>
   (\<exists>p self' h'.
     integrate_all example_lib (example_self turn_input) (example_store turn_input) = (Inr p, self', h') \<and>
     integrate_all example_lib self' h' = (Inr p, self', h') \<and>
     already_integrated self' \<and>
     p = (Some (length (vecs (example_store turn_input))), Some (length (mats4 (example_store turn_input)))) \<and>
     read_track h' p =
       (Some (map fst (mats4 (example_store turn_input) ! data (example_self turn_input))),
        Some (map (\<lambda>i. spec_orientation example_lib
                          (mats4 (example_store turn_input) ! data (example_self turn_input))
                          (orientation (example_self turn_input)) (Suc i))
                [0..<num_data_points (example_self turn_input)])))"
proof -
  from example_wf[OF turn_ne] have w: "wf_instance (example_self turn_input) (example_store turn_input)"
    and n: "\<not> already_integrated (example_self turn_input)" by simp_all
  from integrate_all_idempotent[OF w, of example_lib] obtain p self' h' where
    a: "integrate_all example_lib (example_self turn_input) (example_store turn_input) = (Inr p, self', h')"
    and b: "integrate_all example_lib self' h' = (Inr p, self', h')"
    and c: "already_integrated self'"
    and e: "\<not> already_integrated (example_self turn_input) \<longrightarrow>
        p = (Some (length (vecs (example_store turn_input))), Some (length (mats4 (example_store turn_input)))) \<and>
        read_track h' p =
          (Some (map fst (mats4 (example_store turn_input) ! data (example_self turn_input))),
           Some (map (\<lambda>i. spec_orientation example_lib
                          (mats4 (example_store turn_input) ! data (example_self turn_input))
                          (orientation (example_self turn_input)) (Suc i))
                   [0..<num_data_points (example_self turn_input)]))"
    by blast
  from w n a b c e show ?thesis by blast
qed

text \<open>
  C2 (as amended). \<open>get_orientations\<close> and a repeated \<open>integrate_all\<close> return the
  cached arrays themselves, not copies: when the caller overwrites the arrays it was
  given, every later read through either accessor sees the caller's values.
\<close>

theorem accessors_alias_cached_arrays:
  assumes "wf_instance self h" and "\<not> already_integrated self"
  shows "\<exists>rt ro self' h'.
     integrate_all L self h = (Inr (Some rt, Some ro), self', h') \<and>
     get_orientations self' = Some (Some rt, Some ro) \<and>
     (\<forall>a b. fst (integrate_all L self' (write_vec rt b (write_mat4 ro a h'))) = Inr (Some rt, Some ro) \<and>
            read_track (write_vec rt b (write_mat4 ro a h')) (Some rt, Some ro) = (Some b, Some a))"
  unfolding integrate_all_fresh[OF assms]
  by (intro exI conjI, rule refl)
     (simp_all add: get_orientations_def integrate_all_cached read_track_def write_vec_def write_mat4_def)

theorem accessors_alias_cached_arrays_witness:
  "wf_instance (example_self still_input) (example_store still_input) \<and>
   \<not> already_integrated (example_self still_input) \<and>
   (\<exists>rt ro self' h'.
     integrate_all example_lib (example_self still_input) (example_store still_input) =
       (Inr (Some rt, Some ro), self', h') \<and>
     get_orientations self' = Some (Some rt, Some ro) \<and>
     read_track (write_vec rt [5, 6] (write_mat4 ro [(9, 9, 9, 9)] h')) (Some rt, Some ro) =
       (Some [5, 6], Some [(9, 9, 9, 9)]))"
proof -
  from example_wf[OF still_ne] have w: "wf_instance (example_self still_input) (example_store still_input)"
    and n: "\<not> already_integrated (example_self still_input)" by simp_all
  from accessors_alias_cached_arrays[OF w n, of example_lib] w n show ?thesis by blast
qed

text \<open>
  The claim as stated fails: after two samples at rest are integrated, the caller writes
  into the orientation array that \<open>get_orientations\<close> returned, and the next read no
  longer returns the values from before the write.
\<close>

theorem independent_copy_counterexample:
  "get_orientations (fst (snd still_run)) = Some (Some 0, Some 1) \<and>
   read_track (snd (snd still_run)) (Some 0, Some 1) =
     (Some [0, 1], Some [default_orientation, default_orientation]) \<and>
   read_track (write_mat4 1 [(9, 9, 9, 9), (9, 9, 9, 9)] (snd (snd still_run)))
       (the (get_orientations (fst (snd still_run)))) =
     (Some [0, 1], Some [(9, 9, 9, 9), (9, 9, 9, 9)]) \<and>
   fst (integrate_all example_lib (fst (snd still_run))
          (write_mat4 1 [(9, 9, 9, 9), (9, 9, 9, 9)] (snd (snd still_run)))) = Inr (Some 0, Some 1) \<and>
   read_track (write_mat4 1 [(9, 9, 9, 9), (9, 9, 9, 9)] (snd (snd still_run)))
       (the (get_orientations (fst (snd still_run)))) \<noteq>
     read_track (snd (snd still_run)) (the (get_orientations (fst (snd still_run))))"
  unfolding still_run_def example_still_integrated
  by (simp add: get_orientations_def read_track_def write_mat4_def integrate_all_def
      default_orientation_def)

subsection \<open>Accessors before the integration\<close>

lemma get_smoothed_orientation_unintegrated:
  "get_smoothed_orientation P self h =
     (fst (get_smooth_orientations (case smoothing_algo self of None \<Rightarrow> P | Some a \<Rightarrow> a)
             (time_list self) (orientation_list self) h),
      self\<lparr>smoothing_algo := Some (case smoothing_algo self of None \<Rightarrow> P | Some a \<Rightarrow> a)\<rparr>,
      snd (get_smooth_orientations (case smoothing_algo self of None \<Rightarrow> P | Some a \<Rightarrow> a)
             (time_list self) (orientation_list self) h))"
  by (simp add: get_smoothed_orientation_def Let_def case_prod_beta)

lemma get_smoothed_orientation_keeps:
  "get_smoothed_orientation P self h = (r, s1, h1) \<Longrightarrow> orientation_list s1 = orientation_list self"
  by (auto simp add: get_smoothed_orientation_def Let_def case_prod_beta)

lemma get_stabilize_transform_unintegrated:
  assumes "orientation_list self = None"
  shows "\<exists>e. fst (get_stabilize_transform L P self h) = Inl e"
proof -
  obtain r s1 h1 where g: "get_smoothed_orientation P self h = (r, s1, h1)"
    by (cases "get_smoothed_orientation P self h") auto
  from get_smoothed_orientation_keeps[OF g] assms have o: "orientation_list s1 = None" by simp
  show ?thesis
  proof (cases r)
    case (Inl e)
    then show ?thesis by (simp add: get_stabilize_transform_def g)
  next
    case (Inr p)
    then show ?thesis by (cases p) (simp add: get_stabilize_transform_def g o)
  qed
qed

text \<open>
  C10 (as amended). On an instance on which \<open>integrate_all\<close> has not run,
  \<open>get_orientations\<close> returns None; \<open>get_smoothed_orientation\<close> hands None to the
  smoothing algorithm and returns or raises as that does; and \<open>get_stabilize_transform\<close>
  raises, whatever the smoothing algorithm does: its exception, or AttributeError from
  \<open>self.orientation_list.shape\<close>.
\<close>

theorem accessors_before_integration:
  assumes "\<not> already_integrated self" and "orientation_list self = None"
  shows "get_orientations self = None \<and>
         (\<exists>e. fst (get_stabilize_transform L P self h) = Inl e) \<and>
         fst (get_smoothed_orientation P self h) =
           fst (get_smooth_orientations (case smoothing_algo self of None \<Rightarrow> P | Some a \<Rightarrow> a)
                  (time_list self) None h)"
  using assms get_stabilize_transform_unintegrated[OF assms(2)]
  by (simp add: get_orientations_def get_smoothed_orientation_unintegrated)

theorem accessors_before_integration_witness:
  "\<not> already_integrated (example_self still_input) \<and>
   orientation_list (example_self still_input) = None \<and>
   get_orientations (example_self still_input) = None \<and>
   (\<exists>e. fst (get_stabilize_transform example_lib example_algo (example_self still_input)
              (example_store still_input)) = Inl e)"
proof -
  from example_wf[OF still_ne] have n: "\<not> already_integrated (example_self still_input)"
    and o: "orientation_list (example_self still_input) = None" by simp_all
  from accessors_before_integration[OF n o, of example_lib example_algo "example_store still_input"] n o
  show ?thesis by blast
qed

text \<open>
  The claim as stated fails: on a new instance, with a smoothing algorithm that returns
  the track it is given, \<open>get_stabilize_transform\<close> raises AttributeError.
\<close>

theorem never_fails_counterexample:
  "already_integrated (example_self still_input) = False \<and>
   get_orientations (example_self still_input) = None \<and>
   fst (get_smoothed_orientation example_algo (example_self still_input) (example_store still_input)) =
     Inr (None, None) \<and>
   fst (get_stabilize_transform example_lib example_algo (example_self still_input)
          (example_store still_input)) = Inl AttributeError"
  unfolding example_still
  by (simp add: get_orientations_def get_stabilize_transform_def get_smoothed_orientation_def
      example_algo_def Let_def)

subsection \<open>Raw data access\<close>

lemma axis_idx_unknown:
  "s \<notin> {''t'', ''x'', ''y'', ''z'', ''xyz''} \<Longrightarrow> axis_idx (StrAxis s) = Inl KeyError"
  by (simp add: axis_idx_def axis_table_def)

lemma axis_idx_known:
  "axis_idx (StrAxis ''t'') = Inr (Index 0)" "axis_idx (StrAxis ''x'') = Inr (Index 1)"
  "axis_idx (StrAxis ''y'') = Inr (Index 2)" "axis_idx (StrAxis ''z'') = Inr (Index 3)"
  "axis_idx (StrAxis ''xyz'') = Inr Slice_1_4" "axis_idx (IntAxis k) = Inr (Index k)"
  by (simp_all add: axis_idx_def axis_table_def)

lemma column_of_int:
  "- 4 \<le> k \<Longrightarrow> k < 4 \<Longrightarrow> nat (k mod 4) = nat (if k < 0 then k + 4 else k)"
proof -
  assume a: "- 4 \<le> k" "k < 4"
  have "k mod 4 = (if k < 0 then k + 4 else k)"
  proof (cases "k < 0")
    case True
    with a have "(k + 4) mod 4 = k + 4" by (intro mod_pos_pos_trivial) simp_all
    with True show ?thesis by simp
  next
    case False
    with a have "k mod 4 = k" by (intro mod_pos_pos_trivial) simp_all
    with False show ?thesis by simp
  qed
  then show ?thesis by simp
qed

lemma get_raw_data_column:
  assumes "a \<in> {StrAxis ''t'', StrAxis ''x'', StrAxis ''y'', StrAxis ''z''} \<or>
           (\<exists>k. a = IntAxis k \<and> - 4 \<le> k \<and> k < 4)"
  shows "get_raw_data self h a =
           (Inr (Vec (length (vecs h))),
            h\<lparr>vecs := vecs h @ [map (\<lambda>r. col4 r (selected_column a)) (mats4 h ! data self)]\<rparr>)"
  using assms
  by (auto simp add: get_raw_data_def axis_idx_known alloc_vec_def selected_column_def column_of_int
      simp del: mod_pos_pos_trivial)

text \<open>
  C5. \<open>get_raw_data\<close> fails on every key it does not recognise: a string that is not one
  of t, x, y, z, xyz raises KeyError (the InvalidArgument of the description), and an int
  that is not an index of the four columns raises IndexError. For every recognised key
  (t, x, y, z, an int from -4 to 3, or xyz) it returns a new array that holds the selected
  column, or the three angular-velocity columns: the array is at an address no array had
  before, the arrays of the store are as they were, and a later write into the returned
  array changes neither the instance's data nor any older array.
\<close>

theorem get_raw_data_axis:
  "(s \<notin> {''t'', ''x'', ''y'', ''z'', ''xyz''} \<longrightarrow>
      get_raw_data self h (StrAxis s) = (Inl KeyError, h)) \<and>
   (\<not> (- 4 \<le> k \<and> k < 4) \<longrightarrow> get_raw_data self h (IntAxis k) = (Inl IndexError, h)) \<and>
   (a \<in> {StrAxis ''t'', StrAxis ''x'', StrAxis ''y'', StrAxis ''z''} \<or>
      (\<exists>j. a = IntAxis j \<and> - 4 \<le> j \<and> j < 4) \<longrightarrow>
      get_raw_data self h a =
        (Inr (Vec (length (vecs h))),
         h\<lparr>vecs := vecs h @ [map (\<lambda>r. col4 r (selected_column a)) (mats4 h ! data self)]\<rparr>)) \<and>
   get_raw_data self h (StrAxis ''xyz'') =
     (Inr (Mat3 (length (mats3 h))),
      h\<lparr>mats3 := mats3 h @ [map omega_of (mats4 h ! data self)]\<rparr>) \<and>
   (\<forall>r h' v. get_raw_data self h a = (Inr (Vec r), h') \<longrightarrow>
      r = length (vecs h) \<and> mats4 (write_vec r v h') = mats4 h \<and>
      take (length (vecs h)) (vecs (write_vec r v h')) = vecs h \<and>
      mats3 (write_vec r v h') = mats3 h) \<and>
   (\<forall>r h' v. get_raw_data self h a = (Inr (Mat3 r), h') \<longrightarrow>
      r = length (mats3 h) \<and> mats4 (write_mat3 r v h') = mats4 h \<and>
      take (length (mats3 h)) (mats3 (write_mat3 r v h')) = mats3 h \<and>
      vecs (write_mat3 r v h') = vecs h)"
proof (intro conjI impI allI)
  show "get_raw_data self h (StrAxis s) = (Inl KeyError, h)"
    if "s \<notin> {''t'', ''x'', ''y'', ''z'', ''xyz''}"
    using axis_idx_unknown[OF that] by (simp add: get_raw_data_def)
  show "get_raw_data self h (IntAxis k) = (Inl IndexError, h)" if "\<not> (- 4 \<le> k \<and> k < 4)"
    using that by (auto simp add: get_raw_data_def axis_idx_known)
  show "get_raw_data self h a =
        (Inr (Vec (length (vecs h))),
         h\<lparr>vecs := vecs h @ [map (\<lambda>r. col4 r (selected_column a)) (mats4 h ! data self)]\<rparr>)"
    if "a \<in> {StrAxis ''t'', StrAxis ''x'', StrAxis ''y'', StrAxis ''z''} \<or>
      (\<exists>j. a = IntAxis j \<and> - 4 \<le> j \<and> j < 4)"
    using that by (rule get_raw_data_column)
  show "get_raw_data self h (StrAxis ''xyz'') =
     (Inr (Mat3 (length (mats3 h))),
      h\<lparr>mats3 := mats3 h @ [map omega_of (mats4 h ! data self)]\<rparr>)"
    by (simp add: get_raw_data_def axis_idx_known alloc_mat3_def)
next
  fix r h' v
  assume g: "get_raw_data self h a = (Inr (Vec r), h')"
  then have "r = length (vecs h) \<and> mats4 h' = mats4 h \<and> mats3 h' = mats3 h \<and>
             (\<exists>c. vecs h' = vecs h @ [c])"
    by (auto simp add: get_raw_data_def alloc_vec_def alloc_mat3_def Let_def
        split: sum.splits index.splits if_splits)
  then show "r = length (vecs h)" "mats4 (write_vec r v h') = mats4 h"
    "take (length (vecs h)) (vecs (write_vec r v h')) = vecs h" "mats3 (write_vec r v h') = mats3 h"
    by (auto simp add: write_vec_def)
next
  fix r h' v
  assume g: "get_raw_data self h a = (Inr (Mat3 r), h')"
  then have "r = length (mats3 h) \<and> mats4 h' = mats4 h \<and> vecs h' = vecs h \<and>
             (\<exists>c. mats3 h' = mats3 h @ [c])"
    by (auto simp add: get_raw_data_def alloc_vec_def alloc_mat3_def Let_def
        split: sum.splits index.splits if_splits)
  then show "r = length (mats3 h)" "mats4 (write_mat3 r v h') = mats4 h"
    "take (length (mats3 h)) (mats3 (write_mat3 r v h')) = mats3 h" "vecs (write_mat3 r v h') = vecs h"
    by (auto simp add: write_mat3_def)
qed

lemma example_turn:
  "example_self turn_input =
     \<lparr>data = 0, num_data_points = 2, gyro_sample_rate = Some 2, orientation = default_orientation,
      orientation_list = None, time_list = None, imuRefX = (1, 0, 0), imuRefY = (0, 0, 1),
      already_integrated = False, smoothing_algo = None\<rparr>"
  "example_store turn_input =
     \<lparr>vecs = [], mats3 = [], mats4 = [[(0, 0, 0, 0), (1, 0, 0, 2)]]\<rparr>"
  by (simp_all add: turn_input_def example_self_def example_store_def example_instance_def example_lib_def
      spec_quat_def spec_vector_def empty_heap_def GyroIntegrator_def truncate_bad_Cons2
      truncate_bad_single scale_data_def zero_out_def sample_rate_def alloc_mat4_def Let_def)

theorem get_raw_data_axis_witness:
  "''w'' \<notin> {''t'', ''x'', ''y'', ''z'', ''xyz''} \<and>
   get_raw_data (example_self turn_input) (example_store turn_input) (StrAxis ''w'') =
     (Inl KeyError, example_store turn_input) \<and>
   \<not> (- 4 \<le> (7::int) \<and> (7::int) < 4) \<and>
   get_raw_data (example_self turn_input) (example_store turn_input) (IntAxis 7) =
     (Inl IndexError, example_store turn_input) \<and>
   get_raw_data (example_self turn_input) (example_store turn_input) (StrAxis ''z'') =
     (Inr (Vec 0), \<lparr>vecs = [[0, 2]], mats3 = [], mats4 = [[(0, 0, 0, 0), (1, 0, 0, 2)]]\<rparr>)"
proof -
  have a: "''w'' \<notin> {''t'', ''x'', ''y'', ''z'', ''xyz''}" by simp
  have b: "\<not> (- 4 \<le> (7::int) \<and> (7::int) < 4)" by simp
  have c: "StrAxis ''z'' \<in> {StrAxis ''t'', StrAxis ''x'', StrAxis ''y'', StrAxis ''z''} \<or>
      (\<exists>j. StrAxis ''z'' = IntAxis j \<and> - 4 \<le> j \<and> j < 4)" by simp
  note t = get_raw_data_axis[of "''w''" "example_self turn_input" "example_store turn_input" 7 "StrAxis ''z''"]
  from t a have 1: "get_raw_data (example_self turn_input) (example_store turn_input) (StrAxis ''w'') =
     (Inl KeyError, example_store turn_input)" by blast
  from t b have 2: "get_raw_data (example_self turn_input) (example_store turn_input) (IntAxis 7) =
     (Inl IndexError, example_store turn_input)" by blast
  from t c have "get_raw_data (example_self turn_input) (example_store turn_input) (StrAxis ''z'') =
        (Inr (Vec (length (vecs (example_store turn_input)))),
         (example_store turn_input)\<lparr>vecs := vecs (example_store turn_input) @
            [map (\<lambda>r. col4 r (selected_column (StrAxis ''z'')))
               (mats4 (example_store turn_input) ! data (example_self turn_input))]\<rparr>)" by blast
  then have 3: "get_raw_data (example_self turn_input) (example_store turn_input) (StrAxis ''z'') =
     (Inr (Vec 0), \<lparr>vecs = [[0, 2]], mats3 = [], mats4 = [[(0, 0, 0, 0), (1, 0, 0, 2)]]\<rparr>)"
    by (simp add: example_turn selected_column_def col4_def)
  from a b 1 2 3 show ?thesis by blast
qed

subsection \<open>EulerIntegrator\<close>

lemma EulerIntegrator_fresh:
  "EulerIntegrator d ts gs z = Inr self \<Longrightarrow>
     \<not> e_already_integrated self \<and> e_orientation_list self = Unset \<and>
     e_num_data_points self = length (e_data self)"
  by (auto simp add: EulerIntegrator_def split: sum.splits)

lemma Euler_integrate_all_raises:
  assumes "e_orientation_list self = Unset"
  shows "\<exists>e. fst (Euler_integrate_all self) = Inl e"
proof (cases "e_already_integrated self")
  case True
  then show ?thesis using assms by (simp add: Euler_integrate_all_def euler_track_def)
next
  case False
  obtain r acc qs ts where f: "for_each (euler_step (e_data self) (e_num_data_points self))
                [0..<e_num_data_points self] ((0, 0, 0), [], []) = (r, acc, qs, ts)"
    by (metis prod_cases4)
  show ?thesis
    using False assms
    by (cases r) (simp_all add: Euler_integrate_all_def f euler_track_def Let_def)
qed

lemma upt_two: "[0..<2::nat] = [0, Suc 0]"
  by (simp add: numeral_2_eq_2 upt_conv_Cons)

lemma euler_turning:
  "EulerIntegrator euler_input 1 1 True =
     Inr \<lparr>e_data = euler_input, e_num_data_points = 2, e_euler_orientation_list = None,
          e_time_list = None, e_already_integrated = False, e_orientation_list = Unset\<rparr>"
  "fst (Euler_integrate_all (projr (EulerIntegrator euler_input 1 1 True))) = Inl UFuncTypeError"
  "running_sum_spec euler_input 0 = (1 / 2, 0, 0)"
  "running_sum_spec euler_input 1 = (1, 0, 0)"
  by (simp_all add: euler_input_def EulerIntegrator_def euler_scale_data_def zero_out_def Let_def
      Euler_integrate_all_def euler_step_def row_def adjacent_times_def omega_of_def any3_def
      inplace_add_def upt_two running_sum_spec_def symmetric_dt_def)

lemma euler_still:
  "EulerIntegrator still_input 1 1 True =
     Inr \<lparr>e_data = still_input, e_num_data_points = 2, e_euler_orientation_list = None,
          e_time_list = None, e_already_integrated = False, e_orientation_list = Unset\<rparr>"
  "Euler_integrate_all (projr (EulerIntegrator still_input 1 1 True)) =
     (Inl AttributeError,
      \<lparr>e_data = still_input, e_num_data_points = 2,
       e_euler_orientation_list = Some [(0, 0, 0), (0, 0, 0)],
       e_time_list = Some [0, 1], e_already_integrated = True, e_orientation_list = Unset\<rparr>)"
  by (simp_all add: still_input_def EulerIntegrator_def euler_scale_data_def zero_out_def Let_def
      Euler_integrate_all_def euler_step_def row_def adjacent_times_def omega_of_def any3_def
      inplace_add_def upt_two euler_track_def)

text \<open>
  C9 does not hold of the code. \<open>EulerIntegrator.integrate_all\<close> returns for no
  instance the constructor builds: a sample with a non-zero angular velocity raises
  UFuncTypeError at the in-place addition into the int64 accumulator, and when every
  sample is at rest the final \<open>return\<close> reads \<open>self.orientation_list\<close>, which the class
  never assigns (it assigns \<open>self.euler_orientation_list\<close>), and raises AttributeError.
  For the two samples of \<open>euler_input\<close> the running sums would be (0.5, 0, 0) and
  (1, 0, 0).
\<close>

theorem Euler_integrate_all_never_returns:
  "(EulerIntegrator d ts gs z = Inr self \<longrightarrow> (\<exists>e. fst (Euler_integrate_all self) = Inl e)) \<and>
   fst (Euler_integrate_all (projr (EulerIntegrator euler_input 1 1 True))) = Inl UFuncTypeError \<and>
   running_sum_spec euler_input 0 = (1 / 2, 0, 0) \<and>
   running_sum_spec euler_input 1 = (1, 0, 0) \<and>
   fst (Euler_integrate_all (projr (EulerIntegrator still_input 1 1 True))) = Inl AttributeError"
proof -
  have g: "EulerIntegrator d ts gs z = Inr self \<longrightarrow> (\<exists>e. fst (Euler_integrate_all self) = Inl e)"
    using EulerIntegrator_fresh[of d ts gs z self] Euler_integrate_all_raises[of self] by blast
  have s: "fst (Euler_integrate_all (projr (EulerIntegrator still_input 1 1 True))) = Inl AttributeError"
    by (simp only: euler_still(2) fst_conv)
  from g euler_turning(2,3,4) s show ?thesis by blast
qed

theorem Euler_integrate_all_never_returns_witness:
  "EulerIntegrator still_input 1 1 True = Inr (projr (EulerIntegrator still_input 1 1 True)) \<and>
   (\<exists>e. fst (Euler_integrate_all (projr (EulerIntegrator still_input 1 1 True))) = Inl e)"
proof -
  have a: "EulerIntegrator still_input 1 1 True = Inr (projr (EulerIntegrator still_input 1 1 True))"
    by (simp add: euler_still)
  from Euler_integrate_all_never_returns[of still_input 1 1 True "projr (EulerIntegrator still_input 1 1 True)"] a
  show ?thesis by blast
qed

subsection \<open>Resampling\<close>

lemma bounded_out_snoc: "bounded_out M out rots \<Longrightarrow> t \<le> M \<Longrightarrow> bounded_out M (out @ [t]) (rots @ [r])"
  by (simp add: bounded_out_def)

lemma while_negative_terminates:
  assumes "0 < interval" and "getitem smoothed 0 = Inr q" and "0 \<le> M"
  shows "- time < real n * interval \<Longrightarrow> bounded_out M out rots \<Longrightarrow>
         \<exists>t' out' rots'. while_negative smoothed interval time out rots = Some (Inr (t', out', rots')) \<and>
            bounded_out M out' rots'"
proof (induction n arbitrary: time out rots)
  case 0
  then have "\<not> time < 0" by simp
  then show ?case using "0.prems"(2) by (subst while_negative.simps) simp
next
  case (Suc n)
  show ?case
  proof (cases "time < 0")
    case True
    have "- (time + interval) < real n * interval"
      using Suc.prems(1) by (simp add: algebra_simps)
    moreover have "bounded_out M (out @ [time]) (rots @ [Row q])"
      using Suc.prems(2) True assms(3) by (intro bounded_out_snoc) simp_all
    ultimately obtain t' out' rots' where
      "while_negative smoothed interval (time + interval) (out @ [time]) (rots @ [Row q]) =
         Some (Inr (t', out', rots'))" "bounded_out M out' rots'"
      using Suc.IH by blast
    then show ?thesis using True assms(2) by (subst while_negative.simps) simp
  next
    case False
    then show ?thesis using Suc.prems(2) by (subst while_negative.simps) simp
  qed
qed

lemma while_first_terminates:
  assumes "0 < interval" and "getitem smoothed 0 = Inr q" and "getitem tlist 0 = Inr t0" and "t0 \<le> M"
  shows "t0 - time < real n * interval \<Longrightarrow> bounded_out M out rots \<Longrightarrow>
         \<exists>t' out' rots'. while_first tlist smoothed interval time out rots = Some (Inr (t', out', rots')) \<and>
            bounded_out M out' rots'"
proof (induction n arbitrary: time out rots)
  case 0
  then have "\<not> t0 \<ge> time" by simp
  then show ?case using "0.prems"(2) assms(3) by (subst while_first.simps) simp
next
  case (Suc n)
  show ?case
  proof (cases "t0 \<ge> time")
    case True
    have "t0 - (time + interval) < real n * interval"
      using Suc.prems(1) by (simp add: algebra_simps)
    moreover have "bounded_out M (out @ [time]) (rots @ [Row q])"
      using Suc.prems(2) True assms(4) by (intro bounded_out_snoc) simp_all
    ultimately obtain t' out' rots' where
      "while_first tlist smoothed interval (time + interval) (out @ [time]) (rots @ [Row q]) =
         Some (Inr (t', out', rots'))" "bounded_out M out' rots'"
      using Suc.IH by blast
    then show ?thesis using True assms(2,3) by (subst while_first.simps) simp
  next
    case False
    then show ?thesis using Suc.prems(2) assms(3) by (subst while_first.simps) simp
  qed
qed

lemma while_between_terminates:
  assumes "0 < interval" and "getitem smoothed i = Inr a" and "getitem smoothed (i + 1) = Inr b"
    and "row tlist i = Inr ti" and "row tlist (i + 1) = Inr tn" and "tn \<le> M"
  shows "tn - time \<le> real n * interval \<Longrightarrow> bounded_out M out rots \<Longrightarrow>
         \<exists>t' out' rots'. while_between L tlist smoothed interval i time out rots =
              Some (Inr (t', out', rots')) \<and> bounded_out M out' rots'"
proof (induction n arbitrary: time out rots)
  case 0
  then have "\<not> time < tn" by simp
  then show ?case using "0.prems"(2) assms(4,5) by (subst while_between.simps) simp
next
  case (Suc n)
  show ?case
  proof (cases "ti \<le> time \<and> time < tn")
    case True
    have "tn - (time + interval) \<le> real n * interval"
      using Suc.prems(1) by (simp add: algebra_simps)
    moreover have "bounded_out M (out @ [time])
        (rots @ [Interp (slerp L a b [(time - ti) / (tn - ti)])])"
      using Suc.prems(2) True assms(6) by (intro bounded_out_snoc) simp_all
    ultimately obtain t' out' rots' where
      "while_between L tlist smoothed interval i (time + interval) (out @ [time])
         (rots @ [Interp (slerp L a b [(time - ti) / (tn - ti)])]) =
         Some (Inr (t', out', rots'))" "bounded_out M out' rots'"
      using Suc.IH by blast
    then show ?thesis using True assms(2,3,4,5) by (subst while_between.simps) (simp add: Let_def)
  next
    case False
    then show ?thesis using Suc.prems(2) assms(4,5) by (subst while_between.simps) auto
  qed
qed

lemma resample_example_start0:
  "resample L (Some [0, 1, 2]) (Some [s0, s1, s2]) 0 (1 / 2) =
     Some (Inr ([0, 1 / 2, 1, 3 / 2],
                [Row s0, Interp (slerp L s0 s1 [1 / 2]), Interp (slerp L s1 s2 [0]),
                 Interp (slerp L s1 s2 [1 / 2])]))"
proof -
  have u: "[0..<2::nat] = [0, Suc 0]" by (simp add: numeral_2_eq_2 upt_conv_Cons)
  show ?thesis
    by (simp add: resample_def while_negative.simps while_first.simps while_between.simps
        between_step_def getitem_def row_def u Let_def)
qed

lemma resample_example_start_neg:
  "resample L (Some [0, 1, 2]) (Some [s0, s1, s2]) (- 1) (1 / 2) =
     Some (Inr ([- 1, - (1 / 2), 0, 1 / 2, 1, 3 / 2],
                [Row s0, Row s0, Row s0, Interp (slerp L s0 s1 [1 / 2]), Interp (slerp L s1 s2 [0]),
                 Interp (slerp L s1 s2 [1 / 2])]))"
proof -
  have u: "[0..<2::nat] = [0, Suc 0]" by (simp add: numeral_2_eq_2 upt_conv_Cons)
  show ?thesis
    by (simp add: resample_def while_negative.simps while_first.simps while_between.simps
        between_step_def getitem_def row_def u Let_def)
qed

lemma enough_steps: "0 < (interval::real) \<Longrightarrow> \<exists>n. x < real n * interval"
  using ex_less_of_nat_mult[of interval x] by simp

lemma between_step_terminates:
  assumes "0 < interval" and "i + 1 < length tms" and "i + 1 < length sm"
    and "tms ! i \<le> M" and "tms ! (i + 1) \<le> M" and "bounded_out M out rots"
  shows "\<exists>t' out' rots'. between_step L tms (Some sm) interval i (time, out, rots) =
            Some (Inr (t', out', rots')) \<and> bounded_out M out' rots'"
proof -
  have g: "getitem (Some sm) i = Inr (sm ! i)" "getitem (Some sm) (i + 1) = Inr (sm ! (i + 1))"
    using assms(3) by (simp_all add: getitem_def row_def)
  have r: "row tms i = Inr (tms ! i)" "row tms (i + 1) = Inr (tms ! (i + 1))"
    using assms(2) by (simp_all add: row_def)
  obtain n where "tms ! (i + 1) - time < real n * interval"
    using enough_steps[OF assms(1)] by blast
  then have n: "tms ! (i + 1) - time \<le> real n * interval" by simp
  from while_between_terminates[OF assms(1) g r assms(5) n assms(6), of L]
  obtain t1 out1 rots1 where
    w: "while_between L tms (Some sm) interval i time out rots = Some (Inr (t1, out1, rots1))"
    and b: "bounded_out M out1 rots1" by blast
  show ?thesis
  proof (cases "t1 < tms ! i")
    case True
    then have "bounded_out M (out1 @ [t1]) (rots1 @ [Row (sm ! i)])"
      using b assms(4) by (intro bounded_out_snoc) simp_all
    then show ?thesis using True by (simp add: between_step_def w r g)
  next
    case False
    then show ?thesis using b by (simp add: between_step_def w r)
  qed
qed

lemma for_each_between_terminates:
  assumes "0 < interval" and "length tms \<le> length sm" and "\<forall>t\<in>set tms. t \<le> M"
  shows "\<forall>i\<in>set ix. i + 1 < length tms \<Longrightarrow> bounded_out M out rots \<Longrightarrow>
         \<exists>t' out' rots'. for_each_opt (between_step L tms (Some sm) interval) ix (time, out, rots) =
            Some (Inr (t', out', rots')) \<and> bounded_out M out' rots'"
proof (induction ix arbitrary: time out rots)
  case Nil
  then show ?case by simp
next
  case (Cons i ix)
  then have i: "i + 1 < length tms" by simp
  then have "tms ! i \<le> M" "tms ! (i + 1) \<le> M" "i + 1 < length sm"
    using assms(2,3) by simp_all
  from between_step_terminates[OF assms(1) i this(3) this(1) this(2) Cons.prems(2), of L time]
  obtain t1 out1 rots1 where
    s: "between_step L tms (Some sm) interval i (time, out, rots) = Some (Inr (t1, out1, rots1))"
    and b: "bounded_out M out1 rots1" by blast
  from Cons.IH[OF _ b, of t1] Cons.prems(1) show ?case by (simp add: s)
qed

lemma sorted_le_last: "sorted (xs::real list) \<Longrightarrow> x \<in> set xs \<Longrightarrow> x \<le> last xs"
  by (induction xs) (auto split: if_splits)

lemma resample_total_bounded:
  assumes "0 < interval" and "tms \<noteq> []" and "sorted tms" and "0 \<le> hd tms"
    and "length tms \<le> length sm"
  shows "\<exists>ts rs. resample L (Some tms) (Some sm) start interval = Some (Inr (ts, rs)) \<and>
           list_all (\<lambda>t. t \<le> last tms) ts \<and> length rs = length ts"
proof -
  let ?M = "last tms"
  have all: "\<forall>t\<in>set tms. t \<le> ?M" using assms(3) sorted_le_last by blast
  have hd: "hd tms \<le> ?M" using all assms(2) by simp
  then have M0: "0 \<le> ?M" using assms(4) by simp
  have sm: "sm \<noteq> []" using assms(2,5) by auto
  have g: "getitem (Some sm) 0 = Inr (sm ! 0)" using sm by (simp add: getitem_def row_def)
  have t: "getitem (Some tms) 0 = Inr (hd tms)"
    using assms(2) by (simp add: getitem_def row_def hd_conv_nth)
  have b0: "bounded_out ?M [] []" by (simp add: bounded_out_def)
  obtain n1 where "- start < real n1 * interval" using enough_steps[OF assms(1)] by blast
  from while_negative_terminates[OF assms(1) g M0 this b0]
  obtain t1 o1 r1 where
    w1: "while_negative (Some sm) interval start [] [] = Some (Inr (t1, o1, r1))"
    and b1: "bounded_out ?M o1 r1" by blast
  obtain n2 where "hd tms - t1 < real n2 * interval" using enough_steps[OF assms(1)] by blast
  from while_first_terminates[OF assms(1) g t hd this b1]
  obtain t2 o2 r2 where
    w2: "while_first (Some tms) (Some sm) interval t1 o1 r1 = Some (Inr (t2, o2, r2))"
    and b2: "bounded_out ?M o2 r2" by blast
  have ix: "\<forall>i\<in>set [0..<length tms - 1]. i + 1 < length tms" by auto
  from for_each_between_terminates[OF assms(1,5) all ix b2, of L t2]
  obtain t3 o3 r3 where
    w3: "for_each_opt (between_step L tms (Some sm) interval) [0..<length tms - 1] (t2, o2, r2) =
           Some (Inr (t3, o3, r3))"
    and b3: "bounded_out ?M o3 r3" by blast
  have "resample L (Some tms) (Some sm) start interval = Some (Inr (o3, r3))"
    unfolding resample_def w1 by (simp only: option.case sum.case prod.case w2 w3)
  then show ?thesis using b3 by (simp add: bounded_out_def)
qed

lemma get_interpolated_stab_transform_resample:
  assumes "smoothing_algo self = None \<or> (\<exists>a. smoothing_algo self = Some a \<and> \<not> bypass_external_processing a)"
    and "get_stabilize_transform L P self h = (Inr (Some rt, Some rs), s1, h1)"
  shows "get_interpolated_stab_transform L P self h start interval =
           map_option (\<lambda>res. (res, s1, h1))
             (resample L (Some (vecs h1 ! rt)) (Some (mats4 h1 ! rs)) start interval)"
  using assms
  by (auto simp add: get_interpolated_stab_transform_def split: option.splits)

text \<open>
  C1 (as amended). For the track with \<open>time_list\<close> = [0, 1, 2], interval 0.5 and start 0
  the output times are exactly [0, 0.5, 1, 1.5]: each span [t_i, t_(i+1)) is half-open, so
  the last input timestamp 2 is not emitted. With start -1 the first three rotations (so
  the first two) are the first stabilizing rotation unchanged. For a positive interval
  and an ascending \<open>time_list\<close> that does not start before 0, the resampling returns and
  emits no output time beyond the last input timestamp. The last conjunct says that this
  resampling is what \<open>get_interpolated_stab_transform\<close> returns for the track of
  \<open>get_stabilize_transform\<close>.
\<close>

theorem resample_half_open:
  "resample L (Some [0, 1, 2]) (Some [s0, s1, s2]) 0 (1 / 2) =
     Some (Inr ([0, 1 / 2, 1, 3 / 2],
                [Row s0, Interp (slerp L s0 s1 [1 / 2]), Interp (slerp L s1 s2 [0]),
                 Interp (slerp L s1 s2 [1 / 2])])) \<and>
   resample L (Some [0, 1, 2]) (Some [s0, s1, s2]) (- 1) (1 / 2) =
     Some (Inr ([- 1, - (1 / 2), 0, 1 / 2, 1, 3 / 2],
                [Row s0, Row s0, Row s0, Interp (slerp L s0 s1 [1 / 2]), Interp (slerp L s1 s2 [0]),
                 Interp (slerp L s1 s2 [1 / 2])])) \<and>
   (0 < interval \<and> tms \<noteq> [] \<and> sorted tms \<and> 0 \<le> hd tms \<and> length tms \<le> length sm \<longrightarrow>
      (\<exists>ts rs. resample L (Some tms) (Some sm) start interval = Some (Inr (ts, rs)) \<and>
           list_all (\<lambda>t. t \<le> last tms) ts \<and> length rs = length ts)) \<and>
   ((smoothing_algo self = None \<or>
       (\<exists>a. smoothing_algo self = Some a \<and> \<not> bypass_external_processing a)) \<and>
    get_stabilize_transform L P self h = (Inr (Some rt, Some ro), s', h') \<longrightarrow>
      get_interpolated_stab_transform L P self h start interval =
        map_option (\<lambda>res. (res, s', h'))
          (resample L (Some (vecs h' ! rt)) (Some (mats4 h' ! ro)) start interval))"
proof (intro conjI impI)
  show "resample L (Some [0, 1, 2]) (Some [s0, s1, s2]) 0 (1 / 2) =
     Some (Inr ([0, 1 / 2, 1, 3 / 2],
                [Row s0, Interp (slerp L s0 s1 [1 / 2]), Interp (slerp L s1 s2 [0]),
                 Interp (slerp L s1 s2 [1 / 2])]))"
    by (rule resample_example_start0)
  show "resample L (Some [0, 1, 2]) (Some [s0, s1, s2]) (- 1) (1 / 2) =
     Some (Inr ([- 1, - (1 / 2), 0, 1 / 2, 1, 3 / 2],
                [Row s0, Row s0, Row s0, Interp (slerp L s0 s1 [1 / 2]), Interp (slerp L s1 s2 [0]),
                 Interp (slerp L s1 s2 [1 / 2])]))"
    by (rule resample_example_start_neg)
  show "\<exists>ts rs. resample L (Some tms) (Some sm) start interval = Some (Inr (ts, rs)) \<and>
           list_all (\<lambda>t. t \<le> last tms) ts \<and> length rs = length ts"
    if "0 < interval \<and> tms \<noteq> [] \<and> sorted tms \<and> 0 \<le> hd tms \<and> length tms \<le> length sm"
    using that by (intro resample_total_bounded) simp_all
  show "get_interpolated_stab_transform L P self h start interval =
        map_option (\<lambda>res. (res, s', h'))
          (resample L (Some (vecs h' ! rt)) (Some (mats4 h' ! ro)) start interval)"
    if "(smoothing_algo self = None \<or>
       (\<exists>a. smoothing_algo self = Some a \<and> \<not> bypass_external_processing a)) \<and>
    get_stabilize_transform L P self h = (Inr (Some rt, Some ro), s', h')"
    using that by (intro get_interpolated_stab_transform_resample) simp_all
qed

theorem resample_half_open_witness:
  "(0::real) < 1 / 2 \<and> [0, 1, 2 :: real] \<noteq> [] \<and> sorted [0, 1, 2 :: real] \<and>
   (0::real) \<le> hd [0, 1, 2] \<and>
   length [0, 1, 2 :: real] \<le> length [default_orientation, default_orientation, default_orientation] \<and>
   (\<exists>ts rs. resample example_lib (Some [0, 1, 2])
              (Some [default_orientation, default_orientation, default_orientation]) 0 (1 / 2) =
              Some (Inr (ts, rs)) \<and>
           list_all (\<lambda>t. t \<le> last [0, 1, 2]) ts \<and> length rs = length ts)"
proof -
  have a: "(0::real) < 1 / 2 \<and> [0, 1, 2 :: real] \<noteq> [] \<and> sorted [0, 1, 2 :: real] \<and>
   (0::real) \<le> hd [0, 1, 2] \<and>
   length [0, 1, 2 :: real] \<le> length [default_orientation, default_orientation, default_orientation]"
    by simp
  note t = resample_half_open[of example_lib _ _ _ "1 / 2" "[0, 1, 2]"
      "[default_orientation, default_orientation, default_orientation]" 0]
  from t a show ?thesis by blast
qed

text \<open>
  The claim as stated fails: for the instance built from three samples at the times 0, 1
  and 2, integrated, \<open>get_interpolated_stab_transform\<close> with start 0 and interval 0.5
  returns the output times [0, 0.5, 1, 1.5], without 2.
\<close>

lemma upt_three: "[0..<3::nat] = [0, Suc 0, Suc (Suc 0)]"
  by (simp add: numeral_3_eq_3 upt_conv_Cons)

lemma example_three:
  "example_self three_input =
     \<lparr>data = 0, num_data_points = 3, gyro_sample_rate = Some (3 / 2), orientation = default_orientation,
      orientation_list = None, time_list = None, imuRefX = (1, 0, 0), imuRefY = (0, 0, 1),
      already_integrated = False, smoothing_algo = None\<rparr>"
  "example_store three_input =
     \<lparr>vecs = [], mats3 = [], mats4 = [[(0, 0, 0, 0), (1, 0, 0, 0), (2, 0, 0, 0)]]\<rparr>"
  by (simp_all add: three_input_def example_self_def example_store_def example_instance_def example_lib_def
      spec_quat_def spec_vector_def empty_heap_def GyroIntegrator_def truncate_bad_Cons2
      truncate_bad_single scale_data_def zero_out_def sample_rate_def alloc_mat4_def Let_def)

lemma three_run_value:
  "three_run =
     (Inr (Some 0, Some 1),
      \<lparr>data = 0, num_data_points = 3, gyro_sample_rate = Some (3 / 2), orientation = default_orientation,
       orientation_list = Some 1, time_list = Some 0, imuRefX = (1, 0, 0), imuRefY = (0, 0, 1),
       already_integrated = True, smoothing_algo = None\<rparr>,
      \<lparr>vecs = [[0, 1, 2]], mats3 = [],
       mats4 = [[(0, 0, 0, 0), (1, 0, 0, 0), (2, 0, 0, 0)],
                [default_orientation, default_orientation, default_orientation]]\<rparr>)"
  unfolding three_run_def example_three
  by (simp add: integrate_all_def integrate_step_def adjacent_times_def row_def omega_of_def any3_def
      alloc_mat4_def alloc_vec_def Let_def upt_three)

theorem last_time_counterexample:
  "fst (read_track (snd (snd three_run)) (projr (fst three_run))) = Some [0, 1, 2] \<and>
   map_option (\<lambda>r. fst (projr (fst r)))
     (get_interpolated_stab_transform example_lib example_algo (fst (snd three_run))
        (snd (snd three_run)) 0 (1 / 2)) = Some [0, 1 / 2, 1, 3 / 2] \<and>
   [0, 1 / 2, 1, 3 / 2] \<noteq> [0, 1 / 2, 1, 3 / 2, 2 :: real]"
proof -
  have a: "fst (read_track (snd (snd three_run)) (projr (fst three_run))) = Some [0, 1, 2]"
    unfolding three_run_value by (simp add: read_track_def)
  have s: "get_stabilize_transform example_lib example_algo (fst (snd three_run)) (snd (snd three_run)) =
             (Inr (Some 0, Some 2),
              (fst (snd three_run))\<lparr>smoothing_algo := Some example_algo\<rparr>,
              \<lparr>vecs = [[0, 1, 2]], mats3 = [],
               mats4 = [[(0, 0, 0, 0), (1, 0, 0, 0), (2, 0, 0, 0)],
                        [default_orientation, default_orientation, default_orientation],
                        [default_orientation, default_orientation, default_orientation]]\<rparr>)"
    unfolding three_run_value
    by (simp add: get_stabilize_transform_def get_smoothed_orientation_def example_algo_def Let_def
        stab_step_def getitem_def row_def upt_three alloc_mat4_def example_lib_def spec_quat_def)
  have n: "smoothing_algo (fst (snd three_run)) = None \<or>
      (\<exists>a. smoothing_algo (fst (snd three_run)) = Some a \<and> \<not> bypass_external_processing a)"
    unfolding three_run_value by simp
  have b: "map_option (\<lambda>r. fst (projr (fst r)))
     (get_interpolated_stab_transform example_lib example_algo (fst (snd three_run))
        (snd (snd three_run)) 0 (1 / 2)) = Some [0, 1 / 2, 1, 3 / 2]"
    unfolding get_interpolated_stab_transform_resample[OF n s]
    by (simp add: resample_example_start0)
  from a b show ?thesis by simp
qed

end
